theory Spec2Isabelle
  imports Complex_Main "HOL-Library.Word" "HOL-Library.AList"
begin

section \<open>JavaScript values read by the importer\<close>

text \<open>
  The importer walks the document that \<open>JSON.parse\<close> returns for the output of the
  asset parser. The document is modelled with the shape the walk relies on: a field
  that the code tests before use (\<open>if (json.x)\<close>, \<open>light.x ?? 0.0\<close>) is optional, every
  other field is present, with the kind of value the parser's exporter writes there.
  JSON numbers are idealised as reals. Reading an array past its end gives
  \<open>undefined\<close>, written \<open>None\<close>; a component of a vector or quaternion that is modelled by
  the numbers it is given is therefore a \<open>number option\<close>, where \<open>None\<close> stands for
  \<open>undefined\<close> (\<open>NaN\<close> once it takes part in arithmetic). Reading a property of
  \<open>undefined\<close> throws a \<open>TypeError\<close>.
\<close>

type_synonym number = real

type_synonym jsnumber = "number option"

type_synonym bytes = "8 word list"

datatype error_message =
    AssimpFailedToConvert string   \<comment> \<open>\<open>Assimp failed to convert files! Error code: ...\<close>\<close>
  | UnknownLightType number        \<comment> \<open>\<open>Unknown light type: ...\<close>\<close>

datatype error =
    Error error_message
  | TypeError
  | SyntaxError

definition elem :: "'a list \<Rightarrow> nat \<Rightarrow> 'a option" where
  \<comment> \<open>\<open>xs[i]\<close> on a JavaScript array\<close>
  "elem xs i = (if i < length xs then Some (xs ! i) else None)"

fun collect :: "('a \<Rightarrow> error + 'b) \<Rightarrow> 'a list \<Rightarrow> error + 'b list" where
  \<comment> \<open>a loop that pushes (or a generator that yields) one result per element; the first
      throw leaves the loop\<close>
  "collect f [] = Inr []"
| "collect f (x # xs) =
     (case f x of
        Inl e \<Rightarrow> Inl e
      | Inr y \<Rightarrow> (case collect f xs of Inl e \<Rightarrow> Inl e | Inr ys \<Rightarrow> Inr (y # ys)))"

section \<open>Float32Array storage\<close>

text \<open>
  gl-matrix keeps a vector or matrix in a \<open>Float32Array\<close>. A value written to such an
  array is converted to a number (\<open>undefined\<close> gives \<open>NaN\<close>) and the number is rounded to
  the nearest float32, ties to even, as \<open>Math.fround\<close> does: a number of magnitude at
  least \<open>2^e\<close>, \<open>e \<ge> -126\<close>, keeps 24 significant bits, so it becomes a multiple of
  \<open>2^(e - 23)\<close>; smaller numbers become multiples of \<open>2^(-149)\<close>; a number that rounds to
  \<open>2^128\<close> or more becomes an infinity. The sign of zero is not distinguished.
\<close>

datatype float32 = NaN | Infinity | NegInfinity | Float32 real

datatype jsvalue =
    Undefined
  | Number number
  | CodeUnit char   \<comment> \<open>a string of one code unit, the result of indexing a string\<close>

definition round_half_even :: "real \<Rightarrow> int" where
  "round_half_even r =
     (let f = \<lfloor>r\<rfloor>
      in if r - of_int f < 1 / 2 then f
         else if 1 / 2 < r - of_int f then f + 1
         else if even f then f else f + 1)"

function float32_exponent :: "int \<Rightarrow> real \<Rightarrow> int" where
  \<comment> \<open>the greatest \<open>e\<close> from \<open>k\<close> downwards with \<open>2^e \<le> a\<close>, and \<open>-126\<close> when there is none above\<close>
  "float32_exponent k a =
     (if k \<le> - 126 \<or> 2 powi k \<le> a then k else float32_exponent (k - 1) a)"
  by pat_completeness auto
termination
  by (relation "measure (\<lambda>(k, a). nat (k + 126))") auto

declare float32_exponent.simps [simp del]

definition fround :: "real \<Rightarrow> float32" where
  "fround x =
     (if 2 ^ 128 \<le> \<bar>x\<bar> then (if x < 0 then NegInfinity else Infinity)
      else (let e = float32_exponent 127 \<bar>x\<bar>;
                q = 2 powi (e - 23);
                y = of_int (round_half_even (x / q)) * q
            in if 2 ^ 128 \<le> \<bar>y\<bar> then (if x < 0 then NegInfinity else Infinity)
               else Float32 y))"

definition ToNumber :: "jsvalue \<Rightarrow> number option" where
  \<comment> \<open>\<open>None\<close> is \<open>NaN\<close>; a one-unit string is a number when it is a decimal digit, and 0
      when it is white space\<close>
  "ToNumber v =
     (case v of
        Undefined \<Rightarrow> None
      | Number x \<Rightarrow> Some x
      | CodeUnit c \<Rightarrow>
          (if c \<in> set ''0123456789'' then Some (real (of_char c - 48))
           else if of_char c \<in> {9, 10, 11, 12, 13, 32, 160 :: nat} then Some 0
           else None))"

definition Float32Array_set :: "jsvalue \<Rightarrow> float32" where
  "Float32Array_set v = (case ToNumber v of None \<Rightarrow> NaN | Some x \<Rightarrow> fround x)"

definition number_elem :: "number list \<Rightarrow> nat \<Rightarrow> jsvalue" where
  \<comment> \<open>\<open>xs[i]\<close> on an array of numbers, as a value\<close>
  "number_elem xs i = (case elem xs i of None \<Rightarrow> Undefined | Some x \<Rightarrow> Number x)"

section \<open>The gl-matrix values the importer constructs\<close>

text \<open>
  gl-matrix is a library outside the repository. A matrix is the flat array of its
  components, in the order of the arguments of \<open>fromValues\<close>, as in the library. The
  storage in a \<open>Float32Array\<close> is modelled where the stored numbers themselves are the
  subject below: for the node transform (\<open>mat4.fromValues\<close>) and for the material colour.
  The vectors and quaternions of keys, lights, vertices and cameras are modelled by the
  numbers they are given, in argument order, without the rounding of the storage.
\<close>

datatype 'a vec3 = Vec3 (v0: 'a) (v1: 'a) (v2: 'a)

datatype 'a quat = Quat (q0: 'a) (q1: 'a) (q2: 'a) (q3: 'a)

type_synonym mat3 = "jsnumber list"

type_synonym mat4 = "float32 list"

definition vec3_fromValues :: "'a \<Rightarrow> 'a \<Rightarrow> 'a \<Rightarrow> 'a vec3" where
  "vec3_fromValues x y z = Vec3 x y z"

definition quat_fromValues :: "'a \<Rightarrow> 'a \<Rightarrow> 'a \<Rightarrow> 'a \<Rightarrow> 'a quat" where
  "quat_fromValues x y z w = Quat x y z w"

definition mat3_fromValues ::
  "jsnumber \<Rightarrow> jsnumber \<Rightarrow> jsnumber \<Rightarrow> jsnumber \<Rightarrow> jsnumber \<Rightarrow> jsnumber \<Rightarrow>
   jsnumber \<Rightarrow> jsnumber \<Rightarrow> jsnumber \<Rightarrow> mat3" where
  "mat3_fromValues m00 m01 m02 m10 m11 m12 m20 m21 m22 =
     [m00, m01, m02, m10, m11, m12, m20, m21, m22]"

definition mat4_fromValues ::
  "jsvalue \<Rightarrow> jsvalue \<Rightarrow> jsvalue \<Rightarrow> jsvalue \<Rightarrow> jsvalue \<Rightarrow> jsvalue \<Rightarrow> jsvalue \<Rightarrow> jsvalue \<Rightarrow>
   jsvalue \<Rightarrow> jsvalue \<Rightarrow> jsvalue \<Rightarrow> jsvalue \<Rightarrow> jsvalue \<Rightarrow> jsvalue \<Rightarrow> jsvalue \<Rightarrow> jsvalue \<Rightarrow>
   mat4" where
  \<comment> \<open>\<open>out = new Float32Array(16); out[0] = m00; ... out[15] = m33\<close>\<close>
  "mat4_fromValues m00 m01 m02 m03 m10 m11 m12 m13 m20 m21 m22 m23 m30 m31 m32 m33 =
     map Float32Array_set
       [m00, m01, m02, m03, m10, m11, m12, m13, m20, m21, m22, m23, m30, m31, m32, m33]"

definition num_mul :: "jsnumber \<Rightarrow> jsnumber \<Rightarrow> jsnumber" where
  "num_mul a b = (case a of None \<Rightarrow> None | Some x \<Rightarrow> (case b of None \<Rightarrow> None | Some y \<Rightarrow> Some (x * y)))"

definition num_sub :: "jsnumber \<Rightarrow> jsnumber \<Rightarrow> jsnumber" where
  "num_sub a b = (case a of None \<Rightarrow> None | Some x \<Rightarrow> (case b of None \<Rightarrow> None | Some y \<Rightarrow> Some (x - y)))"

definition vec3_cross :: "jsnumber vec3 \<Rightarrow> jsnumber vec3 \<Rightarrow> jsnumber vec3" where
  \<comment> \<open>\<open>vec3.cross(out, a, b)\<close>: the cross product of \<open>a\<close> and \<open>b\<close>\<close>
  "vec3_cross a b =
     (let ax = v0 a; ay = v1 a; az = v2 a;
          bx = v0 b; by = v1 b; bz = v2 b
      in Vec3 (num_sub (num_mul ay bz) (num_mul az by))
              (num_sub (num_mul az bx) (num_mul ax bz))
              (num_sub (num_mul ax by) (num_mul ay bx)))"

section \<open>The source document\<close>

type_synonym key_json = "number \<times> number list"
  \<comment> \<open>a key is the two-element array \<open>[time, components]\<close>\<close>

record channel_json =
  name :: string
  positionkeys :: "key_json list option"
  scalingkeys :: "key_json list option"
  rotationkeys :: "key_json list option"

record animation_json =
  name :: string
  duration :: number
  tickspersecond :: number
  channels :: "channel_json list option"

datatype prop_value = PNumber number | PArray "number list" | PString string

record property_json =
  key :: string
  "value" :: prop_value

record material_json =
  properties :: "property_json list"

record mesh_json =
  name :: string
  materialindex :: nat
  vertices :: "number list"
  normals :: "number list option"
  faces :: "nat list list"

record light_json =
  name :: string
  type :: number
  diffusecolor :: "number list"
  attenuationconstant :: number
  angleinnercone :: "number option"
  angleoutercone :: "number option"
  attenuationlinear :: number
  attenuationquadratic :: number

record camera_json =
  name :: string
  clipplanefar :: number
  clipplanenear :: number
  horizontalfov :: number
  up :: "number list"
  lookat :: "number list"

datatype node_json =
  NodeJson (name: string) (transformation: "number list")
           (meshes: "nat list option") (children: "node_json list option")

record assimp_json =
  rootnode :: node_json
  cameras :: "camera_json list option"
  lights :: "light_json list option"
  meshes :: "mesh_json list option"
  materials :: "material_json list option"
  animations :: "animation_json list option"

section \<open>The scene model\<close>

record 'v TypedKey =
  time :: number
  "value" :: 'v

record NodeAnimation =
  name :: string
  positionKeys :: "jsnumber vec3 TypedKey list"
  scaleKeys :: "jsnumber vec3 TypedKey list"
  rotationKeys :: "jsnumber quat TypedKey list"

record AssimpSceneAnimation =
  name :: string
  durationInTicks :: number
  ticksPerSecond :: number
  nodeAnimations :: "NodeAnimation list"
  nodeAnimationMap :: "string \<rightharpoonup> NodeAnimation"

record SceneMaterial =
  name :: string
  albedo :: "float32 vec3"
  metallic :: prop_value
  roughness :: prop_value

record Vertex =
  position :: "jsnumber vec3"
  normal :: "jsnumber vec3"
  color :: "jsnumber vec3"

record SceneMesh =
  name :: string
  vertices :: "Vertex list"
  indices :: "nat list"

datatype SceneLightType = Directional | Point | Spot

record SceneLight =
  name :: string
  type :: SceneLightType
  color :: "jsnumber vec3"
  intensity :: number
  innerConeAngle :: number
  outerConeAngle :: number
  range :: number
  falloff :: number

record SceneCamera =
  name :: string
  nearClipPlane :: number
  farClipPlane :: number
  horizontalFov :: number
  rotation :: "jsnumber quat"

record NodeMesh =
  meshIndex :: nat
  materialIndex :: nat

datatype SceneNode =
  SceneNode (name: string) (transform: mat4) (meshes: "NodeMesh list") (children: "SceneNode list")

record Scene =
  rootNode :: SceneNode
  cameras :: "SceneCamera list"
  lights :: "SceneLight list"
  meshes :: "SceneMesh list"
  materials :: "SceneMaterial list"
  animations :: "AssimpSceneAnimation list"

section \<open>The external collaborators\<close>

text \<open>
  The asset parser, the text decoder, the JSON parser and the library's conversion of a
  rotation matrix to a quaternion are outside the repository; the importer takes them
  as given. \<open>JSON_parse\<close> returns \<open>None\<close> where \<open>JSON.parse\<close> throws a \<open>SyntaxError\<close>.
\<close>

record result_file =
  GetContent :: bytes

record convert_result =
  IsSuccess :: bool
  GetErrorCode :: string
  GetFiles :: "result_file list"

definition FileCount :: "convert_result \<Rightarrow> nat" where
  "FileCount result = length (GetFiles result)"

definition GetFile :: "convert_result \<Rightarrow> nat \<Rightarrow> result_file option" where
  "GetFile result i = elem (GetFiles result) i"

record assimpjs =
  ConvertFileList :: "(string \<times> bytes) list \<Rightarrow> string \<Rightarrow> convert_result"

record host =
  TextDecoder_decode :: "bytes \<Rightarrow> string"
  JSON_parse :: "string \<Rightarrow> assimp_json option"
  quat_fromMat3 :: "mat3 \<Rightarrow> jsnumber quat"

section \<open>AssimpImport\<close>

record AssimpImport =
  assimpJs :: "assimpjs option"
  files :: "(string \<times> bytes) list"

definition new_AssimpImport :: AssimpImport where
  "new_AssimpImport = \<lparr> assimpJs = None, files = [] \<rparr>"

definition loadAssimp :: "assimpjs \<Rightarrow> AssimpImport \<Rightarrow> AssimpImport" where
  "loadAssimp assimp this = this \<lparr> assimpJs := Some assimp \<rparr>"

definition pushFile :: "string \<Rightarrow> bytes \<Rightarrow> AssimpImport \<Rightarrow> AssimpImport" where
  \<comment> \<open>\<open>Map.set\<close>: a known path keeps its place and takes the new buffer\<close>
  "pushFile path data this = this \<lparr> files := AList.update path data (files this) \<rparr>"

definition getAssimpJson :: "host \<Rightarrow> AssimpImport \<Rightarrow> error + assimp_json" where
  \<comment> \<open>\<open>this.assimpJs\<close> is \<open>undefined\<close> until \<open>loadAssimp\<close> has run\<close>
  "getAssimpJson h this =
     (case assimpJs this of
        None \<Rightarrow> Inl TypeError
      | Some assimp \<Rightarrow>
          (let fileList = map (\<lambda>(path, data). (path, data)) (files this);
               result = ConvertFileList assimp fileList ''assjson''
           in if \<not> IsSuccess result \<or> FileCount result = 0
              then Inl (Error (AssimpFailedToConvert (GetErrorCode result)))
              else (case GetFile result 0 of
                      None \<Rightarrow> Inl TypeError
                    | Some resultFile \<Rightarrow>
                        (let jsonContent = TextDecoder_decode h (GetContent resultFile)
                         in case JSON_parse h jsonContent of
                              None \<Rightarrow> Inl SyntaxError
                            | Some json \<Rightarrow> Inr json))))"

subsection \<open>Animations\<close>

definition loadPositionKeys :: "channel_json \<Rightarrow> jsnumber vec3 TypedKey list" where
  "loadPositionKeys channel =
     (case positionkeys channel of
        None \<Rightarrow> []
      | Some keys \<Rightarrow>
          map (\<lambda>key. \<lparr> time = fst key,
                       value = vec3_fromValues (elem (snd key) 0) (elem (snd key) 1) (elem (snd key) 2) \<rparr>)
              keys)"

definition loadScaleKeys :: "channel_json \<Rightarrow> jsnumber vec3 TypedKey list" where
  "loadScaleKeys channel =
     (case scalingkeys channel of
        None \<Rightarrow> []
      | Some keys \<Rightarrow>
          map (\<lambda>key. \<lparr> time = fst key,
                       value = vec3_fromValues (elem (snd key) 0) (elem (snd key) 1) (elem (snd key) 2) \<rparr>)
              keys)"

definition loadRotationKeys :: "channel_json \<Rightarrow> jsnumber quat TypedKey list" where
  "loadRotationKeys channel =
     (case rotationkeys channel of
        None \<Rightarrow> []
      | Some keys \<Rightarrow>
          map (\<lambda>key. \<lparr> time = fst key,
                       value = quat_fromValues (elem (snd key) 1) (elem (snd key) 2)
                                               (elem (snd key) 3) (elem (snd key) 0) \<rparr>)
              keys)"

definition loadNodeAnimations :: "animation_json \<Rightarrow> NodeAnimation list" where
  "loadNodeAnimations animation =
     (case channels animation of
        None \<Rightarrow> []
      | Some cs \<Rightarrow>
          map (\<lambda>channel. \<lparr> NodeAnimation.name = channel_json.name channel,
                           positionKeys = loadPositionKeys channel,
                           scaleKeys = loadScaleKeys channel,
                           rotationKeys = loadRotationKeys channel \<rparr>)
              cs)"

definition new_AssimpSceneAnimation ::
  "string \<Rightarrow> number \<Rightarrow> number \<Rightarrow> NodeAnimation list \<Rightarrow> AssimpSceneAnimation" where
  \<comment> \<open>the constructor: the loop sets one map entry per node animation, in order\<close>
  "new_AssimpSceneAnimation name' durationInTicks' ticksPerSecond' nodeAnimations' =
     \<lparr> AssimpSceneAnimation.name = name',
       durationInTicks = durationInTicks',
       ticksPerSecond = ticksPerSecond',
       nodeAnimations = nodeAnimations',
       nodeAnimationMap =
         fold (\<lambda>nodeAnimation m. m(NodeAnimation.name nodeAnimation \<mapsto> nodeAnimation))
              nodeAnimations' Map.empty \<rparr>"

definition getNodeAnimation :: "AssimpSceneAnimation \<Rightarrow> string \<Rightarrow> NodeAnimation option" where
  \<comment> \<open>\<open>None\<close> is \<open>null\<close>; a node animation is an object, hence never falsy\<close>
  "getNodeAnimation this name' =
     (case nodeAnimationMap this name' of None \<Rightarrow> None | Some nodeAnimation \<Rightarrow> Some nodeAnimation)"

definition loadSceneAnimations :: "assimp_json \<Rightarrow> AssimpSceneAnimation list" where
  "loadSceneAnimations json =
     (case assimp_json.animations json of
        None \<Rightarrow> []
      | Some as \<Rightarrow>
          map (\<lambda>animation.
                 new_AssimpSceneAnimation (animation_json.name animation) (duration animation)
                   (tickspersecond animation) (loadNodeAnimations animation))
              as)"

subsection \<open>Materials\<close>

definition prop_elem :: "prop_value \<Rightarrow> nat \<Rightarrow> jsvalue" where
  \<comment> \<open>\<open>v[i]\<close> on a property value: an array element, a string of one code unit, or
      \<open>undefined\<close> on a number\<close>
  "prop_elem v i =
     (case v of
        PNumber n \<Rightarrow> Undefined
      | PArray xs \<Rightarrow> number_elem xs i
      | PString s \<Rightarrow> (case elem s i of None \<Rightarrow> Undefined | Some c \<Rightarrow> CodeUnit c))"

definition loadSceneMaterial :: "material_json \<Rightarrow> SceneMaterial" where
  \<comment> \<open>\<open>find(...)?.value ?? d\<close>: \<open>d\<close> when \<open>find\<close> returns \<open>undefined\<close>; a property of the
      document has a value. The albedo holds its three components as the \<open>Float32Array\<close>
      of \<open>vec3.fromValues\<close> stores them; \<open>metallic\<close> and \<open>roughness\<close> are the values themselves\<close>
  "loadSceneMaterial material =
     (let matProperties = properties material;
          matDiffuse =
            (case find (\<lambda>prop. key prop = ''$clr.diffuse'') matProperties of
               None \<Rightarrow> PArray [1.0, 1.0, 1.0, 1.0]
             | Some prop \<Rightarrow> property_json.value prop);
          matMetallic =
            (case find (\<lambda>prop. key prop = ''$mat.metallicFactor'') matProperties of
               None \<Rightarrow> PNumber 0.0
             | Some prop \<Rightarrow> property_json.value prop);
          matRoughness =
            (case find (\<lambda>prop. key prop = ''$mat.roughnessFactor'') matProperties of
               None \<Rightarrow> PNumber 0.0
             | Some prop \<Rightarrow> property_json.value prop);
          albedo = vec3_fromValues (Float32Array_set (prop_elem matDiffuse 0))
                                   (Float32Array_set (prop_elem matDiffuse 1))
                                   (Float32Array_set (prop_elem matDiffuse 2))
      in \<lparr> SceneMaterial.name = ''Material'',
           albedo = albedo,
           metallic = matMetallic,
           roughness = matRoughness \<rparr>)"

definition loadSceneMaterials :: "assimp_json \<Rightarrow> SceneMaterial list" where
  "loadSceneMaterials json =
     (case assimp_json.materials json of
        None \<Rightarrow> []
      | Some ms \<Rightarrow> map loadSceneMaterial ms)"

subsection \<open>Meshes\<close>

function getMeshVertices_loop :: "mesh_json \<Rightarrow> nat \<Rightarrow> Vertex list \<Rightarrow> error + Vertex list" where
  \<comment> \<open>the \<open>for\<close> loop of \<open>getMeshVertices\<close>, from counter \<open>i\<close> with the vertices pushed so far;
      the bound \<open>mesh.vertices.length / 3\<close> is a division of numbers, not of integers\<close>
  "getMeshVertices_loop mesh i acc =
     (if real i < real (length (mesh_json.vertices mesh)) / 3
      then (let position = vec3_fromValues (elem (mesh_json.vertices mesh) (i * 3 + 0))
                                           (elem (mesh_json.vertices mesh) (i * 3 + 1))
                                           (elem (mesh_json.vertices mesh) (i * 3 + 2))
            in case normals mesh of
                 None \<Rightarrow> Inl TypeError
               | Some ns \<Rightarrow>
                   (let normal = vec3_fromValues (elem ns (i * 3 + 0)) (elem ns (i * 3 + 1))
                                                 (elem ns (i * 3 + 2));
                        color = vec3_fromValues (Some 1.0) (Some 1.0) (Some 1.0)
                    in getMeshVertices_loop mesh (i + 1)
                         (acc @ [\<lparr> position = position, normal = normal, color = color \<rparr>])))
      else Inr acc)"
  by pat_completeness auto
termination
  by (relation "measure (\<lambda>(mesh, i, acc). length (mesh_json.vertices mesh) - 3 * i)") auto

declare getMeshVertices_loop.simps [simp del]

definition getMeshVertices :: "mesh_json \<Rightarrow> error + Vertex list" where
  "getMeshVertices mesh = getMeshVertices_loop mesh 0 []"

definition flat :: "'a list list \<Rightarrow> 'a list" where
  \<comment> \<open>\<open>Array.prototype.flat()\<close> on an array of arrays of numbers\<close>
  "flat xss = concat xss"

definition loadSceneMesh :: "mesh_json \<Rightarrow> error + SceneMesh" where
  "loadSceneMesh mesh =
     (case getMeshVertices mesh of
        Inl e \<Rightarrow> Inl e
      | Inr vs \<Rightarrow>
          (let fs = faces mesh; is = flat fs
           in Inr \<lparr> SceneMesh.name = mesh_json.name mesh, vertices = vs, indices = is \<rparr>))"

definition loadSceneMeshes :: "assimp_json \<Rightarrow> error + SceneMesh list" where
  "loadSceneMeshes json =
     (case assimp_json.meshes json of
        None \<Rightarrow> Inr []
      | Some ms \<Rightarrow> collect loadSceneMesh ms)"

subsection \<open>Lights\<close>

definition getLightType :: "number \<Rightarrow> error + SceneLightType" where
  "getLightType t =
     (if t = 1 then Inr Directional
      else if t = 2 then Inr Point
      else if t = 3 then Inr Spot
      else Inl (Error (UnknownLightType t)))"

definition loadSceneLight :: "light_json \<Rightarrow> error + SceneLight" where
  "loadSceneLight light =
     (case getLightType (light_json.type light) of
        Inl e \<Rightarrow> Inl e
      | Inr t \<Rightarrow>
          Inr \<lparr> SceneLight.name = light_json.name light,
                type = t,
                color = vec3_fromValues (elem (diffusecolor light) 0) (elem (diffusecolor light) 1)
                                        (elem (diffusecolor light) 2),
                intensity = attenuationconstant light,
                innerConeAngle = (case angleinnercone light of None \<Rightarrow> 0.0 | Some a \<Rightarrow> a),
                outerConeAngle = (case angleoutercone light of None \<Rightarrow> 0.0 | Some a \<Rightarrow> a),
                range = attenuationlinear light,
                falloff = attenuationquadratic light \<rparr>)"

definition loadSceneLights :: "assimp_json \<Rightarrow> error + SceneLight list" where
  "loadSceneLights json =
     (case assimp_json.lights json of
        None \<Rightarrow> Inr []
      | Some ls \<Rightarrow> collect loadSceneLight ls)"

subsection \<open>Cameras\<close>

definition camera_up :: "camera_json \<Rightarrow> jsnumber vec3" where
  "camera_up camera = vec3_fromValues (elem (up camera) 0) (elem (up camera) 1) (elem (up camera) 2)"

definition camera_lookAt :: "camera_json \<Rightarrow> jsnumber vec3" where
  "camera_lookAt camera =
     vec3_fromValues (elem (lookat camera) 0) (elem (lookat camera) 1) (elem (lookat camera) 2)"

definition camera_right :: "camera_json \<Rightarrow> jsnumber vec3" where
  "camera_right camera = vec3_cross (camera_up camera) (camera_lookAt camera)"

definition camera_rotationMatrix :: "camera_json \<Rightarrow> mat3" where
  \<comment> \<open>the constants \<open>up\<close>, \<open>lookAt\<close>, \<open>right\<close> and \<open>rotationMatrix\<close> of the loop body\<close>
  "camera_rotationMatrix camera =
     (let up = camera_up camera; lookAt = camera_lookAt camera; right = camera_right camera
      in mat3_fromValues
           (v0 right) (v0 up) (v0 lookAt)
           (v1 right) (v1 up) (v1 lookAt)
           (v2 right) (v2 up) (v2 lookAt))"

definition loadSceneCamera :: "host \<Rightarrow> camera_json \<Rightarrow> SceneCamera" where
  "loadSceneCamera h camera =
     \<lparr> SceneCamera.name = camera_json.name camera,
       nearClipPlane = clipplanenear camera,
       farClipPlane = clipplanefar camera,
       horizontalFov = horizontalfov camera,
       rotation = quat_fromMat3 h (camera_rotationMatrix camera) \<rparr>"

definition loadSceneCameras :: "host \<Rightarrow> assimp_json \<Rightarrow> SceneCamera list" where
  "loadSceneCameras h json =
     (case assimp_json.cameras json of
        None \<Rightarrow> []
      | Some cs \<Rightarrow> map (loadSceneCamera h) cs)"

subsection \<open>Nodes\<close>

definition loadNodeMesh :: "assimp_json \<Rightarrow> nat \<Rightarrow> error + NodeMesh" where
  \<comment> \<open>one step of the mesh loop: \<open>json.meshes[mesh].materialindex\<close> throws when
      \<open>json.meshes\<close> or \<open>json.meshes[mesh]\<close> is undefined\<close>
  "loadNodeMesh json mesh =
     (case assimp_json.meshes json of
        None \<Rightarrow> Inl TypeError
      | Some ms \<Rightarrow>
          (case elem ms mesh of
             None \<Rightarrow> Inl TypeError
           | Some m \<Rightarrow> Inr \<lparr> meshIndex = mesh, materialIndex = materialindex m \<rparr>))"

fun loadSceneNode :: "node_json \<Rightarrow> assimp_json \<Rightarrow> error + SceneNode"
  and loadSceneNode_children :: "node_json list \<Rightarrow> assimp_json \<Rightarrow> error + SceneNode list" where
  "loadSceneNode (NodeJson name' t ms cs) json =
     (case (case ms of None \<Rightarrow> Inr [] | Some l \<Rightarrow> collect (loadNodeMesh json) l) of
        Inl e \<Rightarrow> Inl e
      | Inr meshes' \<Rightarrow>
          (case (case cs of None \<Rightarrow> Inr [] | Some l \<Rightarrow> loadSceneNode_children l json) of
             Inl e \<Rightarrow> Inl e
           | Inr children' \<Rightarrow>
               Inr (SceneNode name'
                      (mat4_fromValues
                         (number_elem t 0) (number_elem t 4) (number_elem t 8) (number_elem t 12)
                         (number_elem t 1) (number_elem t 5) (number_elem t 9) (number_elem t 13)
                         (number_elem t 2) (number_elem t 6) (number_elem t 10) (number_elem t 14)
                         (number_elem t 3) (number_elem t 7) (number_elem t 11) (number_elem t 15))
                      meshes' children')))"
| "loadSceneNode_children [] json = Inr []"
| "loadSceneNode_children (child # rest) json =
     (case loadSceneNode child json of
        Inl e \<Rightarrow> Inl e
      | Inr n \<Rightarrow>
          (case loadSceneNode_children rest json of
             Inl e \<Rightarrow> Inl e
           | Inr ns \<Rightarrow> Inr (n # ns)))"

subsection \<open>The scene\<close>

definition loadScene :: "host \<Rightarrow> AssimpImport \<Rightarrow> error + Scene" where
  "loadScene h this =
     (case getAssimpJson h this of
        Inl e \<Rightarrow> Inl e
      | Inr json \<Rightarrow>
          (case loadSceneNode (rootnode json) json of
             Inl e \<Rightarrow> Inl e
           | Inr rootNode' \<Rightarrow>
               (let cameras' = loadSceneCameras h json
                in case loadSceneLights json of
                     Inl e \<Rightarrow> Inl e
                   | Inr lights' \<Rightarrow>
                       (case loadSceneMeshes json of
                          Inl e \<Rightarrow> Inl e
                        | Inr meshes' \<Rightarrow>
                            (let materials' = loadSceneMaterials json;
                                 animations' = loadSceneAnimations json
                             in Inr \<lparr> rootNode = rootNode', cameras = cameras', lights = lights',
                                      meshes = meshes', materials = materials',
                                      animations = animations' \<rparr>)))))"

section \<open>The nodes of a tree, in document order\<close>

fun nodes_of :: "node_json \<Rightarrow> node_json list"
  and nodes_of_list :: "node_json list \<Rightarrow> node_json list" where
  "nodes_of (NodeJson name' t ms cs) =
     NodeJson name' t ms cs # (case cs of None \<Rightarrow> [] | Some l \<Rightarrow> nodes_of_list l)"
| "nodes_of_list [] = []"
| "nodes_of_list (child # rest) = nodes_of child @ nodes_of_list rest"

fun scene_nodes :: "SceneNode \<Rightarrow> SceneNode list"
  and scene_nodes_list :: "SceneNode list \<Rightarrow> SceneNode list" where
  "scene_nodes (SceneNode name' t ms cs) = SceneNode name' t ms cs # scene_nodes_list cs"
| "scene_nodes_list [] = []"
| "scene_nodes_list (child # rest) = scene_nodes child @ scene_nodes_list rest"

section \<open>Example documents\<close>

definition example_camera :: camera_json where
  "example_camera =
     \<lparr> camera_json.name = ''cam'', clipplanefar = 100, clipplanenear = 1, horizontalfov = 1,
       up = [1, 0, 0], lookat = [0, 1, 0] \<rparr>"

definition example_arm :: channel_json where
  "example_arm =
     \<lparr> channel_json.name = ''Arm'',
       positionkeys = Some [(0, [1, 2, 3])],
       scalingkeys = None,
       rotationkeys = Some [(0, [1, 0, 0, 0]), (10, [0, 1, 0, 0])] \<rparr>"

definition example_leg :: channel_json where
  "example_leg =
     \<lparr> channel_json.name = ''Leg'', positionkeys = None, scalingkeys = None, rotationkeys = None \<rparr>"

definition example_lights :: "light_json list" where
  "example_lights =
     [\<lparr> light_json.name = ''sun'', type = 1, diffusecolor = [1, 1, 1],
        attenuationconstant = 1, angleinnercone = None, angleoutercone = None,
        attenuationlinear = 0, attenuationquadratic = 0 \<rparr>,
      \<lparr> light_json.name = ''lamp'', type = 3, diffusecolor = [1, 0, 0],
        attenuationconstant = 1, angleinnercone = Some 1, angleoutercone = Some 2,
        attenuationlinear = 0, attenuationquadratic = 1 \<rparr>]"

definition example_meshes :: "mesh_json list" where
  "example_meshes =
     [\<lparr> mesh_json.name = ''a'', materialindex = 4,
        vertices = [0, 0, 0, 1, 0, 0, 0, 1, 0, 1, 1, 0],
        normals = Some [0, 0, 1, 0, 0, 1, 0, 0, 1, 0, 0, 1],
        faces = [[0, 1, 2], [2, 1, 3]] \<rparr>,
      \<lparr> mesh_json.name = ''b'', materialindex = 2, vertices = [], normals = None, faces = [] \<rparr>]"

definition example_materials :: "material_json list" where
  "example_materials =
     [\<lparr> properties =
          [\<lparr> key = ''?mat.name'', value = PString ''red'' \<rparr>,
           \<lparr> key = ''$clr.diffuse'', value = PArray [1, 0, 0, 1] \<rparr>,
           \<lparr> key = ''$mat.metallicFactor'', value = PNumber 1 \<rparr>,
           \<lparr> key = ''$mat.roughnessFactor'', value = PNumber 2 \<rparr>] \<rparr>,
      \<lparr> properties = [\<lparr> key = ''?mat.name'', value = PString ''plain'' \<rparr>] \<rparr>,
      \<lparr> properties = [\<lparr> key = ''$clr.diffuse'', value = PArray [6 / 10, 1 / 4] \<rparr>] \<rparr>,
      \<lparr> properties = [\<lparr> key = ''$clr.diffuse'', value = PString ''r5 '' \<rparr>] \<rparr>]"

definition example_animations :: "animation_json list" where
  "example_animations =
     [\<lparr> animation_json.name = ''walk'', duration = 20, tickspersecond = 10,
        channels = Some [example_arm, example_leg] \<rparr>]"

definition example_document :: assimp_json where
  "example_document =
     \<lparr> rootnode =
         NodeJson ''root'' [1, 2, 3, 4, 5, 6, 7, 8, 9, 10, 11, 12, 13, 14, 15, 16] (Some [1, 0])
           (Some [NodeJson ''kid'' [1, 0, 0, 5, 0, 1, 0, 6, 0, 0, 1, 7, 0, 0, 0, 1] (Some [1]) None]),
       cameras = Some [example_camera],
       lights = Some example_lights,
       meshes = Some example_meshes,
       materials = Some example_materials,
       animations = Some example_animations \<rparr>"

definition example_root :: SceneNode where
  "example_root =
     SceneNode ''root''
       (map Float32 [1, 5, 9, 13, 2, 6, 10, 14, 3, 7, 11, 15, 4, 8, 12, 16])
       [\<lparr> meshIndex = 1, materialIndex = 2 \<rparr>, \<lparr> meshIndex = 0, materialIndex = 4 \<rparr>]
       [SceneNode ''kid''
          (map Float32 [1, 0, 0, 0, 0, 1, 0, 0, 0, 0, 1, 0, 5, 6, 7, 1])
          [\<lparr> meshIndex = 1, materialIndex = 2 \<rparr>] []]"

definition example_unrepresentable_node :: node_json where
  "example_unrepresentable_node =
     NodeJson ''node'' [16777217, 0, 0, 0, 1 / 10, 1, 0, 0, 0, 0, 1, 0, 0, 0, 0, 1] None None"

definition example_unrepresentable_root :: SceneNode where
  "example_unrepresentable_root =
     SceneNode ''node''
       (map Float32 [16777216, 13421773 / 134217728, 0, 0, 0, 1, 0, 0, 0, 0, 1, 0, 0, 0, 0, 1])
       [] []"

definition example_unknown_lights :: "light_json list" where
  "example_unknown_lights =
     [\<lparr> light_json.name = ''sun'', type = 1, diffusecolor = [1, 1, 1],
        attenuationconstant = 1, angleinnercone = None, angleoutercone = None,
        attenuationlinear = 0, attenuationquadratic = 0 \<rparr>,
      \<lparr> light_json.name = ''area'', type = 5, diffusecolor = [1, 1, 1],
        attenuationconstant = 1, angleinnercone = None, angleoutercone = None,
        attenuationlinear = 0, attenuationquadratic = 0 \<rparr>,
      \<lparr> light_json.name = ''ambient'', type = 4, diffusecolor = [1, 1, 1],
        attenuationconstant = 1, angleinnercone = None, angleoutercone = None,
        attenuationlinear = 0, attenuationquadratic = 0 \<rparr>]"

definition example_unknown_light :: assimp_json where
  "example_unknown_light = example_document \<lparr> assimp_json.lights := Some example_unknown_lights \<rparr>"

definition example_assimp :: assimpjs where
  "example_assimp =
     \<lparr> ConvertFileList = (\<lambda>fileList format.
         \<lparr> IsSuccess = True, GetErrorCode = [], GetFiles = [\<lparr> GetContent = [123, 125] \<rparr>] \<rparr>) \<rparr>"

definition example_failing_assimp :: assimpjs where
  "example_failing_assimp =
     \<lparr> ConvertFileList = (\<lambda>fileList format.
         \<lparr> IsSuccess = False, GetErrorCode = ''import_error'', GetFiles = [] \<rparr>) \<rparr>"

definition example_host :: "assimp_json \<Rightarrow> host" where
  "example_host document =
     \<lparr> TextDecoder_decode = (\<lambda>content. ''{}''),
       JSON_parse = (\<lambda>text. Some document),
       quat_fromMat3 = (\<lambda>m. Quat (Some 0) (Some 0) (Some 0) (Some 1)) \<rparr>"

definition example_import :: "assimpjs \<Rightarrow> AssimpImport" where
  "example_import assimp = pushFile ''box.gltf'' [1, 2, 3] (loadAssimp assimp new_AssimpImport)"

definition example_arm_animation :: NodeAnimation where
  "example_arm_animation =
     \<lparr> NodeAnimation.name = ''Arm'',
       positionKeys = [\<lparr> time = 0, value = Vec3 (Some 1) (Some 2) (Some 3) \<rparr>],
       scaleKeys = [],
       rotationKeys = [] \<rparr>"

definition example_leg_animation :: NodeAnimation where
  "example_leg_animation =
     \<lparr> NodeAnimation.name = ''Leg'', positionKeys = [], scaleKeys = [], rotationKeys = [] \<rparr>"

definition example_second_arm_animation :: NodeAnimation where
  "example_second_arm_animation =
     \<lparr> NodeAnimation.name = ''Arm'', positionKeys = [], scaleKeys = [],
       rotationKeys = [\<lparr> time = 0, value = Quat (Some 0) (Some 0) (Some 0) (Some 1) \<rparr>] \<rparr>"

definition example_scene_lights :: "SceneLight list" where
  "example_scene_lights =
     [\<lparr> SceneLight.name = ''sun'', type = Directional, color = Vec3 (Some 1) (Some 1) (Some 1),
        intensity = 1, innerConeAngle = 0, outerConeAngle = 0, range = 0, falloff = 0 \<rparr>,
      \<lparr> SceneLight.name = ''lamp'', type = Spot, color = Vec3 (Some 1) (Some 0) (Some 0),
        intensity = 1, innerConeAngle = 1, outerConeAngle = 2, range = 0, falloff = 1 \<rparr>]"

section \<open>Loops that may throw\<close>

lemma collect_Inr:
  "collect f xs = Inr ys \<Longrightarrow> list_all2 (\<lambda>x y. f x = Inr y) xs ys"
  by (induction xs arbitrary: ys) (auto split: sum.splits)

lemma collect_Inl:
  "collect f xs = Inl e \<Longrightarrow> \<exists>x \<in> set xs. f x = Inl e"
  by (induction xs) (auto split: sum.splits)

section \<open>Rounding to float32\<close>

lemma float32_exponent_eq:
  assumes "e \<le> k" and "- 126 \<le> e" and "2 powi e \<le> a" and "a < 2 powi (e + 1)"
  shows "float32_exponent k a = e"
  using assms
proof (induction k a rule: float32_exponent.induct)
  case (1 k a)
  show ?case
  proof (cases "k = e")
    case True
    with "1.prems" show ?thesis by (subst float32_exponent.simps) simp
  next
    case False
    with "1.prems" have lt: "e < k" by simp
    then have "e + 1 \<le> k" by simp
    then have "(2::real) powi (e + 1) \<le> 2 powi k"
      by (intro power_int_increasing) simp_all
    with "1.prems" have n: "\<not> 2 powi k \<le> a" by simp
    from lt "1.prems" have k: "\<not> k \<le> - 126" by simp
    have "float32_exponent (k - 1) a = e"
      using "1.IH" n k lt "1.prems" by simp
    with n k show ?thesis by (subst float32_exponent.simps) simp
  qed
qed

lemma float32_exponent_subnormal:
  assumes "- 126 \<le> k" and "a < 2 powi (- 126)"
  shows "float32_exponent k a = - 126"
  using assms
proof (induction k a rule: float32_exponent.induct)
  case (1 k a)
  show ?case
  proof (cases "k = - 126")
    case True
    then show ?thesis by (subst float32_exponent.simps) simp
  next
    case False
    with "1.prems" have lt: "- 126 < k" by simp
    then have "(2::real) powi (- 126) \<le> 2 powi k"
      by (intro power_int_increasing) simp_all
    with "1.prems" have n: "\<not> 2 powi k \<le> a" by simp
    from lt have k: "\<not> k \<le> - 126" by simp
    have "float32_exponent (k - 1) a = - 126"
      using "1.IH" n k lt "1.prems" by simp
    with n k show ?thesis by (subst float32_exponent.simps) simp
  qed
qed

text \<open>A number in the binade of \<open>2^e\<close> is rounded to a multiple of \<open>2^(e - 23)\<close>.\<close>

lemma fround_normal:
  assumes "- 126 \<le> e" and "e \<le> 127" and "2 powi e \<le> \<bar>x\<bar>" and "\<bar>x\<bar> < 2 powi (e + 1)"
  shows "fround x =
           (let q = 2 powi (e - 23); y = of_int (round_half_even (x / q)) * q
            in if 2 ^ 128 \<le> \<bar>y\<bar> then (if x < 0 then NegInfinity else Infinity) else Float32 y)"
proof -
  have "(2::real) powi (e + 1) \<le> 2 powi 128"
    using assms(2) by (intro power_int_increasing) simp_all
  with assms(4) have "\<not> 2 ^ 128 \<le> \<bar>x\<bar>" by simp
  moreover have "float32_exponent 127 \<bar>x\<bar> = e"
    using assms by (intro float32_exponent_eq) simp_all
  ultimately show ?thesis by (simp add: fround_def Let_def)
qed

lemma fround_0: "fround 0 = Float32 0"
  by (simp add: fround_def float32_exponent_subnormal round_half_even_def)

lemma round_half_even_of_int: "round_half_even (of_int n) = n"
  by (simp add: round_half_even_def)

lemma int_power_le_abs:
  assumes "(2::nat) ^ e \<le> nat \<bar>n\<bar>"
  shows "(2::int) ^ e \<le> \<bar>n\<bar>"
proof -
  from assms have "int (2 ^ e) \<le> int (nat \<bar>n\<bar>)" by (simp only: of_nat_le_iff)
  then show ?thesis by simp
qed

lemma int_abs_less_power:
  assumes "nat \<bar>n\<bar> < (2::nat) ^ (e + 1)"
  shows "\<bar>n\<bar> < (2::int) ^ (e + 1)"
proof -
  from assms have "int (nat \<bar>n\<bar>) < int (2 ^ (e + 1))" by (simp only: of_nat_less_iff)
  then show ?thesis by simp
qed

lemma real_power_le_abs:
  assumes "(2::int) ^ e \<le> \<bar>n\<bar>"
  shows "(2::real) powi int e \<le> \<bar>of_int n\<bar>"
proof -
  from assms have "(of_int (2 ^ e) :: real) \<le> of_int \<bar>n\<bar>" by (simp only: of_int_le_iff)
  then show ?thesis by simp
qed

lemma real_abs_less_power:
  assumes "\<bar>n\<bar> < (2::int) ^ (e + 1)"
  shows "\<bar>of_int n :: real\<bar> < 2 powi (int e + 1)"
proof -
  from assms have "(of_int \<bar>n\<bar> :: real) < of_int (2 ^ (e + 1))" by (simp only: of_int_less_iff)
  moreover have "(2::real) powi (int e + 1) = 2 ^ (e + 1)"
    using power_int_of_nat[of "2::real" "e + 1"] by (simp add: add.commute)
  ultimately show ?thesis by simp
qed

lemma real_abs_small:
  assumes "\<bar>n\<bar> \<le> (2::int) ^ 24"
  shows "\<not> (2::real) ^ 128 \<le> \<bar>of_int n\<bar>"
proof -
  from assms have "(of_int \<bar>n\<bar> :: real) \<le> of_int (2 ^ 24)" by (simp only: of_int_le_iff)
  then show ?thesis by simp
qed

lemma fround_quantum_exact:
  assumes "e \<le> 23"
  shows "of_int (round_half_even (of_int n / 2 powi (int e - 23))) * 2 powi (int e - 23)
           = (of_int n :: real)"
proof -
  have eq: "int e - 23 = - int (23 - e)" using assms by simp
  have "(2::real) powi (int e - 23) = 2 powi (- int (23 - e))" by (simp only: eq)
  also have "\<dots> = inverse (2 powi int (23 - e))" by (rule power_int_minus)
  also have "\<dots> = 1 / 2 ^ (23 - e)" by (simp add: inverse_eq_divide)
  finally have q: "(2::real) powi (int e - 23) = 1 / 2 ^ (23 - e)" .
  have "of_int n / (2::real) powi (int e - 23) = of_int (n * 2 ^ (23 - e))"
    by (simp add: q)
  then have "round_half_even (of_int n / 2 powi (int e - 23)) = n * 2 ^ (23 - e)"
    by (simp only: round_half_even_of_int)
  then show ?thesis by (simp add: q)
qed

lemma fround_quantum_exact_24:
  assumes "\<bar>n\<bar> = (2::int) ^ 24"
  shows "of_int (round_half_even (of_int n / 2 powi (24 - 23))) * 2 powi (24 - 23)
           = (of_int n :: real)"
proof -
  from assms have "n = 16777216 \<or> n = - 16777216" by simp linarith
  then show ?thesis by (auto simp: round_half_even_def)
qed

text \<open>Integers up to \<open>2^24\<close> in magnitude are float32 numbers.\<close>

lemma fround_of_int:
  assumes "\<bar>n\<bar> \<le> 2 ^ 24"
  shows "fround (of_int n) = Float32 (of_int n)"
proof (cases "n = 0")
  case True
  then show ?thesis by (simp add: fround_0)
next
  case False
  then have "1 \<le> nat \<bar>n\<bar>" by simp
  with ex_power_ivl1[of 2 "nat \<bar>n\<bar>"] obtain e :: nat
    where e: "2 ^ e \<le> nat \<bar>n\<bar>" "nat \<bar>n\<bar> < 2 ^ (e + 1)"
    by auto
  from e(1) have lo: "(2::int) ^ e \<le> \<bar>n\<bar>" by (rule int_power_le_abs)
  from e(2) have hi: "\<bar>n\<bar> < (2::int) ^ (e + 1)" by (rule int_abs_less_power)
  from lo assms have "(2::int) ^ e \<le> 2 ^ 24" by (rule order_trans)
  then have e24: "e \<le> 24" by (rule power_le_imp_le_exp[rotated]) simp
  have norm: "fround (of_int n) =
           (let q = 2 powi (int e - 23); y = of_int (round_half_even (of_int n / q)) * q
            in if 2 ^ 128 \<le> \<bar>y\<bar> then (if (of_int n :: real) < 0 then NegInfinity else Infinity)
               else Float32 y)"
    using e24 real_power_le_abs[OF lo] real_abs_less_power[OF hi]
    by (intro fround_normal) simp_all
  have y: "of_int (round_half_even (of_int n / 2 powi (int e - 23))) * 2 powi (int e - 23)
             = (of_int n :: real)"
  proof (cases "e = 24")
    case True
    with lo assms have "\<bar>n\<bar> = 2 ^ 24" by simp
    from fround_quantum_exact_24[OF this] True show ?thesis by simp
  next
    case False
    with e24 have "e \<le> 23" by simp
    then show ?thesis by (rule fround_quantum_exact)
  qed
  show ?thesis
    unfolding norm Let_def y using real_abs_small[OF assms] by simp
qed

lemma fround_numeral:
  "numeral k \<le> (2 ^ 24 :: int) \<Longrightarrow> fround (numeral k) = Float32 (numeral k)"
  using fround_of_int[of "numeral k"] by simp

lemma fround_1: "fround 1 = Float32 1"
  using fround_of_int[of 1] by simp

lemma fround_16777217: "fround 16777217 = Float32 16777216"
  by (simp add: fround_normal[where e = 24] round_half_even_def)

lemma fround_tenth: "fround (1 / 10) = Float32 (13421773 / 134217728)"
  by (simp add: fround_normal[where e = "- 4"] round_half_even_def)

lemma fround_six_tenths: "fround (3 / 5) = Float32 (5033165 / 8388608)"
  by (simp add: fround_normal[where e = "- 1"] round_half_even_def)

lemma fround_quarter: "fround (1 / 4) = Float32 (1 / 4)"
  by (simp add: fround_normal[where e = "- 2"] round_half_even_def)

lemmas fround_examples =
  fround_0 fround_1 fround_numeral fround_16777217 fround_tenth fround_six_tenths fround_quarter

section \<open>The node tree\<close>

text \<open>
  A property that holds of every successful call of \<open>loadSceneNode\<close> holds of every node
  of the tree and the scene node made from it, paired in document order.
\<close>

lemma loadSceneNode_all_nodes:
  assumes top: "\<And>n json out. loadSceneNode n json = Inr out \<Longrightarrow> P json n out"
  shows "loadSceneNode n json = Inr out \<Longrightarrow> list_all2 (P json) (nodes_of n) (scene_nodes out)"
    and "loadSceneNode_children l json = Inr outs \<Longrightarrow>
         list_all2 (P json) (nodes_of_list l) (scene_nodes_list outs)"
proof (induction n json and l json arbitrary: out and outs
       rule: loadSceneNode_loadSceneNode_children.induct)
  case (1 name' t ms cs json)
  have here: "P json (NodeJson name' t ms cs) out"
    using top "1.prems" by blast
  from "1.prems" obtain meshes' children' where
    m: "(case ms of None \<Rightarrow> Inr [] | Some l \<Rightarrow> collect (loadNodeMesh json) l) = Inr meshes'"
    and c: "(case cs of None \<Rightarrow> Inr [] | Some l \<Rightarrow> loadSceneNode_children l json) = Inr children'"
    and out: "SceneNode.children out = children'" "scene_nodes out = out # scene_nodes_list children'"
    by (auto split: sum.splits)
  have "list_all2 (P json) (case cs of None \<Rightarrow> [] | Some l \<Rightarrow> nodes_of_list l)
          (scene_nodes_list children')"
  proof (cases cs)
    case None
    with c show ?thesis by simp
  next
    case (Some l)
    with c have "loadSceneNode_children l json = Inr children'" by simp
    with "1.IH"[OF m Some] Some show ?thesis by simp
  qed
  with here show ?case by (simp add: out)
next
  case (2 json)
  then show ?case by simp
next
  case (3 child rest json)
  from "3.prems" obtain n ns where
    n: "loadSceneNode child json = Inr n" and ns: "loadSceneNode_children rest json = Inr ns"
    and outs: "outs = n # ns"
    by (auto split: sum.splits)
  from "3.IH"(1)[OF n] "3.IH"(2)[OF n ns] show ?case
    by (simp add: outs list_all2_appendI)
qed

lemma loadSceneNode_example:
  "loadSceneNode (rootnode example_document) example_document = Inr example_root"
  by (simp add: example_document_def example_meshes_def example_root_def loadNodeMesh_def elem_def
        mat4_fromValues_def number_elem_def Float32Array_set_def ToNumber_def fround_examples)

lemma loadSceneNode_unrepresentable_example:
  "loadSceneNode example_unrepresentable_node example_document = Inr example_unrepresentable_root"
  by (simp add: example_unrepresentable_node_def example_unrepresentable_root_def elem_def
        mat4_fromValues_def number_elem_def Float32Array_set_def ToNumber_def fround_examples)

subsection \<open>Transforms\<close>

lemma length16E:
  assumes "length (m :: 'a list) = 16"
  obtains a0 a1 a2 a3 a4 a5 a6 a7 a8 a9 a10 a11 a12 a13 a14 a15
  where "m = [a0, a1, a2, a3, a4, a5, a6, a7, a8, a9, a10, a11, a12, a13, a14, a15]"
  using assms by (auto simp: eval_nat_numeral length_Suc_conv)

lemma loadSceneNode_transform:
  assumes "loadSceneNode n json = Inr out"
  shows "transform out =
           map Float32Array_set
             [number_elem (transformation n) 0, number_elem (transformation n) 4,
              number_elem (transformation n) 8, number_elem (transformation n) 12,
              number_elem (transformation n) 1, number_elem (transformation n) 5,
              number_elem (transformation n) 9, number_elem (transformation n) 13,
              number_elem (transformation n) 2, number_elem (transformation n) 6,
              number_elem (transformation n) 10, number_elem (transformation n) 14,
              number_elem (transformation n) 3, number_elem (transformation n) 7,
              number_elem (transformation n) 11, number_elem (transformation n) 15]"
  using assms by (cases n) (auto simp: mat4_fromValues_def split: sum.splits)

lemma less4: "(r::nat) < 4 \<Longrightarrow> r = 0 \<or> r = 1 \<or> r = 2 \<or> r = 3"
  by arith

lemma loadSceneNode_top_transposed:
  assumes ok: "loadSceneNode n json = Inr out" and len: "length (transformation n) = 16"
  shows "let m = transformation n; d = transform out
         in d = map fround [m ! 0, m ! 4, m ! 8, m ! 12, m ! 1, m ! 5, m ! 9, m ! 13,
                            m ! 2, m ! 6, m ! 10, m ! 14, m ! 3, m ! 7, m ! 11, m ! 15]
          \<and> (\<forall>r < 4. \<forall>c < 4. d ! (c * 4 + r) = fround (m ! (r * 4 + c)))
          \<and> [d ! 0, d ! 4, d ! 8, d ! 12, d ! 1, d ! 5, d ! 9, d ! 13,
              d ! 2, d ! 6, d ! 10, d ! 14, d ! 3, d ! 7, d ! 11, d ! 15] = map fround m
          \<and> ([d ! 0, d ! 4, d ! 8, d ! 12, d ! 1, d ! 5, d ! 9, d ! 13,
               d ! 2, d ! 6, d ! 10, d ! 14, d ! 3, d ! 7, d ! 11, d ! 15] = map Float32 m
              \<longleftrightarrow> (\<forall>x \<in> set m. fround x = Float32 x))"
proof -
  from len obtain a0 a1 a2 a3 a4 a5 a6 a7 a8 a9 a10 a11 a12 a13 a14 a15
    where m: "transformation n = [a0, a1, a2, a3, a4, a5, a6, a7, a8, a9, a10, a11, a12, a13, a14, a15]"
    by (rule length16E)
  have d: "transform out =
             map fround [a0, a4, a8, a12, a1, a5, a9, a13, a2, a6, a10, a14, a3, a7, a11, a15]"
    by (simp add: loadSceneNode_transform[OF ok] m number_elem_def elem_def Float32Array_set_def
          ToNumber_def)
  have idx: "transform out ! (c * 4 + r) = fround (transformation n ! (r * 4 + c))"
    if "r < 4" "c < 4" for r c
    using less4[OF that(1)] less4[OF that(2)] by (auto simp: d m)
  have columns: "[transform out ! 0, transform out ! 4, transform out ! 8, transform out ! 12,
               transform out ! 1, transform out ! 5, transform out ! 9, transform out ! 13,
               transform out ! 2, transform out ! 6, transform out ! 10, transform out ! 14,
               transform out ! 3, transform out ! 7, transform out ! 11, transform out ! 15]
              = map fround (transformation n)"
    by (simp add: d m)
  have exact: "map fround (transformation n) = map Float32 (transformation n)
               \<longleftrightarrow> (\<forall>x \<in> set (transformation n). fround x = Float32 x)"
    by (rule map_eq_conv)
  have first: "transform out =
      map fround [transformation n ! 0, transformation n ! 4, transformation n ! 8,
                  transformation n ! 12, transformation n ! 1, transformation n ! 5,
                  transformation n ! 9, transformation n ! 13, transformation n ! 2,
                  transformation n ! 6, transformation n ! 10, transformation n ! 14,
                  transformation n ! 3, transformation n ! 7, transformation n ! 11,
                  transformation n ! 15]"
    by (simp add: d m)
  show ?thesis
    unfolding Let_def columns exact[symmetric]
    using idx first by blast
qed

text \<open>
  C1, as the code has it. \<open>mat4.fromValues\<close> stores its arguments in a \<open>Float32Array\<close>, so
  every element is rounded to float32 on the way. Every node of the document whose
  \<open>transformation\<close> has 16 elements \<open>m\<close> gets the transform
  \<open>[f m0,f m4,f m8,f m12, f m1,f m5,f m9,f m13, f m2,f m6,f m10,f m14, f m3,f m7,f m11,f m15]\<close>
  with \<open>f\<close> the rounding to float32: element \<open>m[r*4+c]\<close>, rounded, is at \<open>transform[c*4+r]\<close>.
  Reading the transform back by columns gives the 16 input elements rounded to float32;
  it gives the input itself exactly when every element is a float32 number. The nodes
  of the document and of the scene are paired in document order.
\<close>

theorem loadSceneNode_transform_transpose:
  assumes "loadSceneNode nodeJson json = Inr out"
  shows "list_all2
           (\<lambda>n s. length (transformation n) = 16 \<longrightarrow>
              (let m = transformation n; d = transform s
               in d = map fround [m ! 0, m ! 4, m ! 8, m ! 12, m ! 1, m ! 5, m ! 9, m ! 13,
                                  m ! 2, m ! 6, m ! 10, m ! 14, m ! 3, m ! 7, m ! 11, m ! 15]
                \<and> (\<forall>r < 4. \<forall>c < 4. d ! (c * 4 + r) = fround (m ! (r * 4 + c)))
                \<and> [d ! 0, d ! 4, d ! 8, d ! 12, d ! 1, d ! 5, d ! 9, d ! 13,
                    d ! 2, d ! 6, d ! 10, d ! 14, d ! 3, d ! 7, d ! 11, d ! 15] = map fround m
                \<and> ([d ! 0, d ! 4, d ! 8, d ! 12, d ! 1, d ! 5, d ! 9, d ! 13,
                     d ! 2, d ! 6, d ! 10, d ! 14, d ! 3, d ! 7, d ! 11, d ! 15] = map Float32 m
                    \<longleftrightarrow> (\<forall>x \<in> set m. fround x = Float32 x))))
           (nodes_of nodeJson) (scene_nodes out)"
  by (rule loadSceneNode_all_nodes(1)
        [where P = "\<lambda>json n s. length (transformation n) = 16 \<longrightarrow>
              (let m = transformation n; d = transform s
               in d = map fround [m ! 0, m ! 4, m ! 8, m ! 12, m ! 1, m ! 5, m ! 9, m ! 13,
                                  m ! 2, m ! 6, m ! 10, m ! 14, m ! 3, m ! 7, m ! 11, m ! 15]
                \<and> (\<forall>r < 4. \<forall>c < 4. d ! (c * 4 + r) = fround (m ! (r * 4 + c)))
                \<and> [d ! 0, d ! 4, d ! 8, d ! 12, d ! 1, d ! 5, d ! 9, d ! 13,
                    d ! 2, d ! 6, d ! 10, d ! 14, d ! 3, d ! 7, d ! 11, d ! 15] = map fround m
                \<and> ([d ! 0, d ! 4, d ! 8, d ! 12, d ! 1, d ! 5, d ! 9, d ! 13,
                     d ! 2, d ! 6, d ! 10, d ! 14, d ! 3, d ! 7, d ! 11, d ! 15] = map Float32 m
                    \<longleftrightarrow> (\<forall>x \<in> set m. fround x = Float32 x)))",
         OF _ assms])
     (use loadSceneNode_top_transposed in blast)

theorem loadSceneNode_transform_transpose_witness:
  "loadSceneNode (rootnode example_document) example_document = Inr example_root
   \<and> nodes_of (rootnode example_document) =
       [rootnode example_document,
        NodeJson ''kid'' [1, 0, 0, 5, 0, 1, 0, 6, 0, 0, 1, 7, 0, 0, 0, 1] (Some [1]) None]
   \<and> length (transformation (rootnode example_document)) = 16
   \<and> map fround (transformation (rootnode example_document))
       = map Float32 (transformation (rootnode example_document))
   \<and> transform example_root =
       map Float32 [1, 5, 9, 13, 2, 6, 10, 14, 3, 7, 11, 15, 4, 8, 12, 16]
   \<and> transform (hd (SceneNode.children example_root)) =
       map Float32 [1, 0, 0, 0, 0, 1, 0, 0, 0, 0, 1, 0, 5, 6, 7, 1]
   \<and> loadSceneNode example_unrepresentable_node example_document = Inr example_unrepresentable_root
   \<and> transformation example_unrepresentable_node ! 0 = 16777217
   \<and> transformation example_unrepresentable_node ! 4 = 1 / 10
   \<and> transform example_unrepresentable_root ! 0 = Float32 16777216
   \<and> transform example_unrepresentable_root ! 1 = Float32 (13421773 / 134217728)"
  using loadSceneNode_transform_transpose[OF loadSceneNode_example] loadSceneNode_example
    loadSceneNode_transform_transpose[OF loadSceneNode_unrepresentable_example]
    loadSceneNode_unrepresentable_example
  by (simp add: example_document_def example_root_def example_unrepresentable_node_def
        example_unrepresentable_root_def fround_examples)

text \<open>
  C1 as stated fails: for the node whose transformation starts with \<open>16777217\<close>, the
  transform starts with \<open>16777216\<close>, and for the element \<open>0.1\<close> it holds
  \<open>0.100000001490116...\<close>; reading the transform back by columns does not give the input.
\<close>

theorem transform_round_trip_counterexample:
  "loadSceneNode example_unrepresentable_node example_document = Inr example_unrepresentable_root
   \<and> length (transformation example_unrepresentable_node) = 16
   \<and> transform example_unrepresentable_root
       \<noteq> map Float32
           [transformation example_unrepresentable_node ! 0, transformation example_unrepresentable_node ! 4,
            transformation example_unrepresentable_node ! 8, transformation example_unrepresentable_node ! 12,
            transformation example_unrepresentable_node ! 1, transformation example_unrepresentable_node ! 5,
            transformation example_unrepresentable_node ! 9, transformation example_unrepresentable_node ! 13,
            transformation example_unrepresentable_node ! 2, transformation example_unrepresentable_node ! 6,
            transformation example_unrepresentable_node ! 10, transformation example_unrepresentable_node ! 14,
            transformation example_unrepresentable_node ! 3, transformation example_unrepresentable_node ! 7,
            transformation example_unrepresentable_node ! 11, transformation example_unrepresentable_node ! 15]
   \<and> [transform example_unrepresentable_root ! 0, transform example_unrepresentable_root ! 4,
       transform example_unrepresentable_root ! 8, transform example_unrepresentable_root ! 12,
       transform example_unrepresentable_root ! 1, transform example_unrepresentable_root ! 5,
       transform example_unrepresentable_root ! 9, transform example_unrepresentable_root ! 13,
       transform example_unrepresentable_root ! 2, transform example_unrepresentable_root ! 6,
       transform example_unrepresentable_root ! 10, transform example_unrepresentable_root ! 14,
       transform example_unrepresentable_root ! 3, transform example_unrepresentable_root ! 7,
       transform example_unrepresentable_root ! 11, transform example_unrepresentable_root ! 15]
       \<noteq> map Float32 (transformation example_unrepresentable_node)"
  using loadSceneNode_unrepresentable_example
  by (simp add: example_unrepresentable_node_def example_unrepresentable_root_def)

subsection \<open>Meshes of a node\<close>

lemma loadNodeMesh_Inr:
  assumes "loadNodeMesh json i = Inr p"
  shows "\<exists>ms. assimp_json.meshes json = Some ms \<and> i < length ms
            \<and> p = \<lparr> meshIndex = i, materialIndex = materialindex (ms ! i) \<rparr>"
  using assms by (auto simp: loadNodeMesh_def elem_def split: option.splits if_splits)

lemma loadSceneNode_meshes:
  assumes "loadSceneNode n json = Inr out"
  shows "(case node_json.meshes n of None \<Rightarrow> Inr [] | Some l \<Rightarrow> collect (loadNodeMesh json) l)
           = Inr (SceneNode.meshes out)"
  using assms by (cases n) (auto split: sum.splits)

lemma loadSceneNode_top_meshes:
  assumes ok: "loadSceneNode n json = Inr out"
  shows "case node_json.meshes n of
           None \<Rightarrow> SceneNode.meshes out = []
         | Some l \<Rightarrow>
             list_all2 (\<lambda>i p. \<exists>ms. assimp_json.meshes json = Some ms \<and> i < length ms
                                \<and> p = \<lparr> meshIndex = i, materialIndex = materialindex (ms ! i) \<rparr>)
               l (SceneNode.meshes out)"
proof (cases "node_json.meshes n")
  case None
  with loadSceneNode_meshes[OF ok] show ?thesis by simp
next
  case (Some l)
  with loadSceneNode_meshes[OF ok] have "collect (loadNodeMesh json) l = Inr (SceneNode.meshes out)"
    by simp
  then have "list_all2 (\<lambda>i p. loadNodeMesh json i = Inr p) l (SceneNode.meshes out)"
    by (rule collect_Inr)
  then show ?thesis
    unfolding Some option.case
    by (rule list_all2_mono) (rule loadNodeMesh_Inr)
qed

text \<open>
  C8. For every node of the document (paired with its scene node in document order)
  and every mesh index \<open>i\<close> in the node's mesh list, the node-mesh pair at the same
  position has \<open>meshIndex = i\<close> and \<open>materialIndex = json.meshes[i].materialindex\<close>, the
  material index that mesh \<open>i\<close> of the document's mesh catalog declares; a node without
  a mesh list gets no pairs.
\<close>

theorem loadSceneNode_material_of_mesh:
  assumes "loadSceneNode nodeJson json = Inr out"
  shows "list_all2
           (\<lambda>n s. case node_json.meshes n of
                     None \<Rightarrow> SceneNode.meshes s = []
                   | Some l \<Rightarrow>
                       list_all2 (\<lambda>i p. \<exists>ms. assimp_json.meshes json = Some ms \<and> i < length ms
                                  \<and> p = \<lparr> meshIndex = i, materialIndex = materialindex (ms ! i) \<rparr>)
                         l (SceneNode.meshes s))
           (nodes_of nodeJson) (scene_nodes out)"
  by (rule loadSceneNode_all_nodes(1)
        [where P = "\<lambda>json n s. case node_json.meshes n of
                     None \<Rightarrow> SceneNode.meshes s = []
                   | Some l \<Rightarrow>
                       list_all2 (\<lambda>i p. \<exists>ms. assimp_json.meshes json = Some ms \<and> i < length ms
                                  \<and> p = \<lparr> meshIndex = i, materialIndex = materialindex (ms ! i) \<rparr>)
                         l (SceneNode.meshes s)",
         OF _ assms])
     (rule loadSceneNode_top_meshes)

theorem loadSceneNode_material_of_mesh_witness:
  "loadSceneNode (rootnode example_document) example_document = Inr example_root
   \<and> node_json.meshes (rootnode example_document) = Some [1, 0]
   \<and> map_option (map materialindex) (assimp_json.meshes example_document) = Some [4, 2]
   \<and> SceneNode.meshes example_root =
       [\<lparr> meshIndex = 1, materialIndex = 2 \<rparr>, \<lparr> meshIndex = 0, materialIndex = 4 \<rparr>]"
  using loadSceneNode_material_of_mesh[OF loadSceneNode_example] loadSceneNode_example
  by (simp add: example_document_def example_meshes_def example_root_def)

section \<open>Meshes\<close>

lemma loadSceneMesh_indices:
  "loadSceneMesh mesh = Inr s \<Longrightarrow> indices s = flat (faces mesh)"
  by (auto simp: loadSceneMesh_def Let_def split: sum.splits)

lemma flat_triangles_length:
  "\<forall>f \<in> set fs. length f = 3 \<Longrightarrow> length (flat fs) = 3 * length fs"
  unfolding flat_def by (induction fs) auto

lemma flat_triangles_nth:
  "\<forall>f \<in> set fs. length f = 3 \<Longrightarrow> k < length fs \<Longrightarrow> j < 3 \<Longrightarrow>
   flat fs ! (3 * k + j) = fs ! k ! j"
  unfolding flat_def
proof (induction fs arbitrary: k)
  case Nil
  then show ?case by simp
next
  case (Cons f fs)
  show ?case
  proof (cases k)
    case 0
    with Cons.prems show ?thesis by (simp add: nth_append)
  next
    case (Suc k')
    with Cons.prems have "concat fs ! (3 * k' + j) = fs ! k' ! j"
      by (intro Cons.IH) auto
    with Cons.prems Suc show ?thesis by (simp add: nth_append)
  qed
qed

lemma loadSceneMeshes_example:
  "loadSceneMeshes example_document =
     Inr [\<lparr> SceneMesh.name = ''a'',
             vertices =
               [\<lparr> position = Vec3 (Some 0) (Some 0) (Some 0), normal = Vec3 (Some 0) (Some 0) (Some 1),
                   color = Vec3 (Some 1) (Some 1) (Some 1) \<rparr>,
                \<lparr> position = Vec3 (Some 1) (Some 0) (Some 0), normal = Vec3 (Some 0) (Some 0) (Some 1),
                   color = Vec3 (Some 1) (Some 1) (Some 1) \<rparr>,
                \<lparr> position = Vec3 (Some 0) (Some 1) (Some 0), normal = Vec3 (Some 0) (Some 0) (Some 1),
                   color = Vec3 (Some 1) (Some 1) (Some 1) \<rparr>,
                \<lparr> position = Vec3 (Some 1) (Some 1) (Some 0), normal = Vec3 (Some 0) (Some 0) (Some 1),
                   color = Vec3 (Some 1) (Some 1) (Some 1) \<rparr>],
             indices = [0, 1, 2, 2, 1, 3] \<rparr>,
          \<lparr> SceneMesh.name = ''b'', vertices = [], indices = [] \<rparr>]"
  by (simp add: loadSceneMeshes_def example_document_def example_meshes_def loadSceneMesh_def
        getMeshVertices_def getMeshVertices_loop.simps vec3_fromValues_def elem_def flat_def)

text \<open>
  C5. For every mesh of the document whose faces all have 3 indices, the mesh produced
  for it has \<open>3 * faces.length\<close> indices, they are the concatenation of the faces in
  face order, and index \<open>j\<close> of face \<open>k\<close> is at position \<open>3 * k + j\<close>.
\<close>

theorem loadSceneMeshes_indices:
  assumes "assimp_json.meshes json = Some ms" and "loadSceneMeshes json = Inr out"
  shows "list_all2
           (\<lambda>mesh s. (\<forall>f \<in> set (faces mesh). length f = 3) \<longrightarrow>
              length (indices s) = 3 * length (faces mesh)
              \<and> indices s = concat (faces mesh)
              \<and> (\<forall>k < length (faces mesh). \<forall>j < 3. indices s ! (3 * k + j) = faces mesh ! k ! j))
           ms out"
proof -
  from assms have "collect loadSceneMesh ms = Inr out"
    by (simp add: loadSceneMeshes_def)
  then have "list_all2 (\<lambda>mesh s. loadSceneMesh mesh = Inr s) ms out"
    by (rule collect_Inr)
  then show ?thesis
  proof (rule list_all2_mono)
    fix mesh s
    assume "loadSceneMesh mesh = Inr s"
    then have i: "indices s = flat (faces mesh)" by (rule loadSceneMesh_indices)
    show "(\<forall>f \<in> set (faces mesh). length f = 3) \<longrightarrow>
              length (indices s) = 3 * length (faces mesh)
              \<and> indices s = concat (faces mesh)
              \<and> (\<forall>k < length (faces mesh). \<forall>j < 3. indices s ! (3 * k + j) = faces mesh ! k ! j)"
      using flat_triangles_length[of "faces mesh"] flat_triangles_nth[of "faces mesh"]
      by (auto simp: i flat_def)
  qed
qed

theorem loadSceneMeshes_indices_witness:
  "assimp_json.meshes example_document = Some example_meshes
   \<and> faces (example_meshes ! 0) = [[0, 1, 2], [2, 1, 3]]
   \<and> map length (faces (example_meshes ! 0)) = [3, 3]
   \<and> (\<exists>out. loadSceneMeshes example_document = Inr out \<and> indices (out ! 0) = [0, 1, 2, 2, 1, 3])"
  using loadSceneMeshes_indices[OF _ loadSceneMeshes_example, of example_meshes]
    loadSceneMeshes_example
  by (simp add: example_document_def example_meshes_def)

section \<open>Animations\<close>

lemma loadRotationKeys_nth:
  assumes "rotationkeys channel = Some keys" and "i < length keys"
    and "keys ! i = (t, [w, x, y, z])"
  shows "loadRotationKeys channel ! i =
           \<lparr> time = t, value = Quat (Some x) (Some y) (Some z) (Some w) \<rparr>"
  using assms by (simp add: loadRotationKeys_def quat_fromValues_def elem_def)

text \<open>
  C6. Rotation key \<open>i\<close> of channel \<open>c\<close> of animation \<open>a\<close>, of the form \<open>[t, [w, x, y, z]]\<close>,
  becomes key \<open>i\<close> of the rotation keys of node animation \<open>c\<close> of scene animation \<open>a\<close>,
  with time \<open>t\<close> and the quaternion built from \<open>(x, y, z, w)\<close>: \<open>w\<close> moves from first to last.
\<close>

theorem loadRotationKeys_reorder:
  assumes "assimp_json.animations json = Some as" and "a < length as"
    and "channels (as ! a) = Some cs" and "c < length cs"
    and "rotationkeys (cs ! c) = Some keys" and "i < length keys"
    and "keys ! i = (t, [w, x, y, z])"
  shows "length (rotationKeys (nodeAnimations (loadSceneAnimations json ! a) ! c)) = length keys
       \<and> rotationKeys (nodeAnimations (loadSceneAnimations json ! a) ! c) ! i
           = \<lparr> time = t, value = quat_fromValues (Some x) (Some y) (Some z) (Some w) \<rparr>
       \<and> quat_fromValues (Some x) (Some y) (Some z) (Some w)
           = Quat (Some x) (Some y) (Some z) (Some w)"
proof -
  have "nodeAnimations (loadSceneAnimations json ! a) = loadNodeAnimations (as ! a)"
    using assms(1,2) by (simp add: loadSceneAnimations_def new_AssimpSceneAnimation_def)
  moreover have "rotationKeys (loadNodeAnimations (as ! a) ! c) = loadRotationKeys (cs ! c)"
    using assms(3,4) by (simp add: loadNodeAnimations_def)
  moreover have "length (loadRotationKeys (cs ! c)) = length keys"
    using assms(5) by (simp add: loadRotationKeys_def)
  ultimately show ?thesis
    using loadRotationKeys_nth[OF assms(5,6,7)] by (simp add: quat_fromValues_def)
qed

theorem loadRotationKeys_reorder_witness:
  "assimp_json.animations example_document = Some example_animations
   \<and> channels (example_animations ! 0) = Some [example_arm, example_leg]
   \<and> rotationkeys ([example_arm, example_leg] ! 0) = Some [(0, [1, 0, 0, 0]), (10, [0, 1, 0, 0])]
   \<and> rotationKeys (nodeAnimations (loadSceneAnimations example_document ! 0) ! 0) ! 1
       = \<lparr> time = 10, value = Quat (Some 1) (Some 0) (Some 0) (Some 0) \<rparr>"
proof -
  have 1: "assimp_json.animations example_document = Some example_animations"
    by (simp add: example_document_def)
  have 2: "channels (example_animations ! 0) = Some [example_arm, example_leg]"
    by (simp add: example_animations_def)
  have 3: "rotationkeys ([example_arm, example_leg] ! 0) = Some [(0, [1, 0, 0, 0]), (10, [0, 1, 0, 0])]"
    by (simp add: example_arm_def)
  have 4: "[(0, [1, 0, 0, 0]), (10, [0, 1, 0, 0])] ! 1 = (10 :: number, [0, 1, 0, 0 :: number])"
    by simp
  from loadRotationKeys_reorder[OF 1 _ 2 _ 3 _ 4] 1 2 3 show ?thesis
    by (simp add: example_animations_def)
qed

section \<open>Materials\<close>

lemma find_none:
  "\<forall>p \<in> set xs. \<not> P p \<Longrightarrow> find P xs = None"
  by (simp add: find_None_iff)

lemma prop_elem_PNumber: "prop_elem (PNumber n) i = Undefined"
  by (simp add: prop_elem_def)

lemma prop_elem_PArray:
  "prop_elem (PArray xs) i = (if i < length xs then Number (xs ! i) else Undefined)"
  by (simp add: prop_elem_def number_elem_def elem_def)

lemma prop_elem_PString:
  "prop_elem (PString s) i = (if i < length s then CodeUnit (s ! i) else Undefined)"
  by (simp add: prop_elem_def elem_def)

lemma Float32Array_set_Undefined: "Float32Array_set Undefined = NaN"
  by (simp add: Float32Array_set_def ToNumber_def)

lemma Float32Array_set_Number: "Float32Array_set (Number x) = fround x"
  by (simp add: Float32Array_set_def ToNumber_def)

lemma loadSceneMaterial_albedo_default:
  assumes "find (\<lambda>prop. key prop = ''$clr.diffuse'') (properties material) = None"
  shows "albedo (loadSceneMaterial material) = Vec3 (Float32 1) (Float32 1) (Float32 1)"
  using assms
  by (simp add: loadSceneMaterial_def Let_def vec3_fromValues_def prop_elem_PArray
        Float32Array_set_Number fround_1)

lemma loadSceneMaterial_albedo_value:
  assumes "find (\<lambda>prop. key prop = ''$clr.diffuse'') (properties material) = Some p"
  shows "albedo (loadSceneMaterial material) =
           Vec3 (Float32Array_set (prop_elem (property_json.value p) 0))
                (Float32Array_set (prop_elem (property_json.value p) 1))
                (Float32Array_set (prop_elem (property_json.value p) 2))"
  using assms by (simp add: loadSceneMaterial_def Let_def vec3_fromValues_def)

lemma loadSceneMaterial_albedo:
  "albedo (loadSceneMaterial material) =
     (case find (\<lambda>prop. key prop = ''$clr.diffuse'') (properties material) of
        None \<Rightarrow> Vec3 (Float32 1) (Float32 1) (Float32 1)
      | Some p \<Rightarrow>
          (case property_json.value p of
             PNumber n \<Rightarrow> Vec3 NaN NaN NaN
           | PArray xs \<Rightarrow>
               Vec3 (if 0 < length xs then fround (xs ! 0) else NaN)
                    (if 1 < length xs then fround (xs ! 1) else NaN)
                    (if 2 < length xs then fround (xs ! 2) else NaN)
           | PString s \<Rightarrow>
               Vec3 (if 0 < length s then Float32Array_set (CodeUnit (s ! 0)) else NaN)
                    (if 1 < length s then Float32Array_set (CodeUnit (s ! 1)) else NaN)
                    (if 2 < length s then Float32Array_set (CodeUnit (s ! 2)) else NaN)))"
proof (cases "find (\<lambda>prop. key prop = ''$clr.diffuse'') (properties material)")
  case None
  then show ?thesis by (simp add: loadSceneMaterial_albedo_default)
next
  case (Some p)
  show ?thesis
  proof (cases "property_json.value p")
    case (PNumber n)
    with Some show ?thesis
      by (simp add: loadSceneMaterial_albedo_value prop_elem_PNumber Float32Array_set_Undefined)
  next
    case (PArray xs)
    with Some show ?thesis
      by (simp add: loadSceneMaterial_albedo_value prop_elem_PArray Float32Array_set_Undefined
            Float32Array_set_Number)
  next
    case (PString s)
    with Some show ?thesis
      by (simp add: loadSceneMaterial_albedo_value prop_elem_PString Float32Array_set_Undefined)
  qed
qed

lemma loadSceneMaterial_metallic:
  "metallic (loadSceneMaterial material) =
     (case find (\<lambda>prop. key prop = ''$mat.metallicFactor'') (properties material) of
        None \<Rightarrow> PNumber 0 | Some p \<Rightarrow> property_json.value p)"
  by (simp add: loadSceneMaterial_def Let_def split: option.splits)

lemma loadSceneMaterial_roughness:
  "roughness (loadSceneMaterial material) =
     (case find (\<lambda>prop. key prop = ''$mat.roughnessFactor'') (properties material) of
        None \<Rightarrow> PNumber 0 | Some p \<Rightarrow> property_json.value p)"
  by (simp add: loadSceneMaterial_def Let_def split: option.splits)

text \<open>
  C7. For material \<open>i\<close> of the document: without an entry keyed \<open>$clr.diffuse\<close> the albedo
  is \<open>(1, 1, 1)\<close>, without \<open>$mat.metallicFactor\<close> the metallic value is 0, without
  \<open>$mat.roughnessFactor\<close> the roughness value is 0. When an entry with the key is present,
  the value of the first such entry is used: the metallic and roughness values are that
  value itself, and the albedo holds the first three elements \<open>(r, g, b)\<close> of a colour
  array \<open>[r, g, b, ...]\<close>, as the vector stores them (each rounded to float32). A
  component that the value does not have (a shorter array, a number) is \<open>NaN\<close>, and a
  string gives its first three code units converted to numbers.
\<close>

theorem loadSceneMaterials_defaults:
  assumes "assimp_json.materials json = Some ms" and "i < length ms"
  shows "let props = properties (ms ! i); out = loadSceneMaterials json ! i
         in ((\<forall>p \<in> set props. key p \<noteq> ''$clr.diffuse'') \<longrightarrow>
               albedo out = Vec3 (Float32 1) (Float32 1) (Float32 1))
          \<and> ((\<forall>p \<in> set props. key p \<noteq> ''$mat.metallicFactor'') \<longrightarrow> metallic out = PNumber 0)
          \<and> ((\<forall>p \<in> set props. key p \<noteq> ''$mat.roughnessFactor'') \<longrightarrow> roughness out = PNumber 0)
          \<and> (\<forall>p. find (\<lambda>prop. key prop = ''$clr.diffuse'') props = Some p \<longrightarrow>
                 (\<forall>r g b rest. property_json.value p = PArray (r # g # b # rest) \<longrightarrow>
                    albedo out = Vec3 (fround r) (fround g) (fround b))
               \<and> (\<forall>xs. property_json.value p = PArray xs \<longrightarrow>
                    albedo out =
                      Vec3 (if 0 < length xs then fround (xs ! 0) else NaN)
                           (if 1 < length xs then fround (xs ! 1) else NaN)
                           (if 2 < length xs then fround (xs ! 2) else NaN))
               \<and> (\<forall>n. property_json.value p = PNumber n \<longrightarrow> albedo out = Vec3 NaN NaN NaN)
               \<and> (\<forall>s. property_json.value p = PString s \<longrightarrow>
                    albedo out =
                      Vec3 (if 0 < length s then Float32Array_set (CodeUnit (s ! 0)) else NaN)
                           (if 1 < length s then Float32Array_set (CodeUnit (s ! 1)) else NaN)
                           (if 2 < length s then Float32Array_set (CodeUnit (s ! 2)) else NaN)))
          \<and> (\<forall>p. find (\<lambda>prop. key prop = ''$mat.metallicFactor'') props = Some p \<longrightarrow>
                 metallic out = property_json.value p)
          \<and> (\<forall>p. find (\<lambda>prop. key prop = ''$mat.roughnessFactor'') props = Some p \<longrightarrow>
                 roughness out = property_json.value p)"
proof -
  have out: "loadSceneMaterials json ! i = loadSceneMaterial (ms ! i)"
    using assms by (simp add: loadSceneMaterials_def)
  show ?thesis
    unfolding Let_def out
    by (auto simp: loadSceneMaterial_albedo loadSceneMaterial_metallic loadSceneMaterial_roughness
          find_none)
qed

theorem loadSceneMaterials_defaults_witness:
  "assimp_json.materials example_document = Some example_materials
   \<and> find (\<lambda>prop. key prop = ''$clr.diffuse'') (properties (example_materials ! 0))
       = Some \<lparr> key = ''$clr.diffuse'', value = PArray [1, 0, 0, 1] \<rparr>
   \<and> find (\<lambda>prop. key prop = ''$mat.metallicFactor'') (properties (example_materials ! 0))
       = Some \<lparr> key = ''$mat.metallicFactor'', value = PNumber 1 \<rparr>
   \<and> find (\<lambda>prop. key prop = ''$mat.roughnessFactor'') (properties (example_materials ! 0))
       = Some \<lparr> key = ''$mat.roughnessFactor'', value = PNumber 2 \<rparr>
   \<and> loadSceneMaterials example_document ! 0
       = \<lparr> SceneMaterial.name = ''Material'',
           albedo = Vec3 (Float32 1) (Float32 0) (Float32 0),
           metallic = PNumber 1, roughness = PNumber 2 \<rparr>
   \<and> map key (properties (example_materials ! 1)) = [''?mat.name'']
   \<and> loadSceneMaterials example_document ! 1
       = \<lparr> SceneMaterial.name = ''Material'',
           albedo = Vec3 (Float32 1) (Float32 1) (Float32 1),
           metallic = PNumber 0, roughness = PNumber 0 \<rparr>
   \<and> properties (example_materials ! 2)
       = [\<lparr> key = ''$clr.diffuse'', value = PArray [6 / 10, 1 / 4] \<rparr>]
   \<and> albedo (loadSceneMaterials example_document ! 2)
       = Vec3 (Float32 (5033165 / 8388608)) (Float32 (1 / 4)) NaN
   \<and> properties (example_materials ! 3)
       = [\<lparr> key = ''$clr.diffuse'', value = PString ''r5 '' \<rparr>]
   \<and> albedo (loadSceneMaterials example_document ! 3) = Vec3 NaN (Float32 5) (Float32 0)"
proof -
  have m: "assimp_json.materials example_document = Some example_materials"
    by (simp add: example_document_def)
  from loadSceneMaterials_defaults[OF m, of 0] loadSceneMaterials_defaults[OF m, of 1]
    loadSceneMaterials_defaults[OF m, of 2] loadSceneMaterials_defaults[OF m, of 3] m
  show ?thesis
    by (simp add: example_document_def example_materials_def loadSceneMaterials_def
          loadSceneMaterial_def vec3_fromValues_def prop_elem_def number_elem_def elem_def
          Float32Array_set_def ToNumber_def fround_examples)
qed

section \<open>The animation name index\<close>

lemma find_append:
  "find P (xs @ ys) = (case find P xs of None \<Rightarrow> find P ys | Some x \<Rightarrow> Some x)"
  by (induction xs) auto

lemma fold_set_lookup:
  "fold (\<lambda>a m. m(NodeAnimation.name a \<mapsto> a)) xs m0 n =
     (case find (\<lambda>a. NodeAnimation.name a = n) (rev xs) of None \<Rightarrow> m0 n | Some a \<Rightarrow> Some a)"
  by (induction xs arbitrary: m0) (auto split: option.splits simp: find_append)

lemma getNodeAnimation_find:
  "getNodeAnimation (new_AssimpSceneAnimation nm d t xs) n =
     find (\<lambda>a. NodeAnimation.name a = n) (rev xs)"
  by (simp add: getNodeAnimation_def new_AssimpSceneAnimation_def fold_set_lookup
        split: option.splits)

lemma find_distinct_name:
  assumes "distinct (map NodeAnimation.name xs)" and "a \<in> set xs"
  shows "find (\<lambda>b. NodeAnimation.name b = NodeAnimation.name a) xs = Some a"
  using assms by (induction xs) (auto simp: rev_image_eqI)

text \<open>
  C9. For a \<open>SceneAnimation\<close> constructed from node animations with pairwise distinct
  names, \<open>getNodeAnimation\<close> returns for the name of each record of the sequence that
  record, and \<open>null\<close> for every other name. The index is built by the constructor only:
  assigning the public fields afterwards, the sequence included, changes no answer.
\<close>

theorem getNodeAnimation_distinct:
  assumes "distinct (map NodeAnimation.name xs)"
  shows "(\<forall>a \<in> set xs.
            getNodeAnimation (new_AssimpSceneAnimation nm d t xs) (NodeAnimation.name a) = Some a)
       \<and> (\<forall>n. n \<notin> NodeAnimation.name ` set xs \<longrightarrow>
              getNodeAnimation (new_AssimpSceneAnimation nm d t xs) n = None)
       \<and> (\<forall>nm' d' t' ys n.
              getNodeAnimation
                (new_AssimpSceneAnimation nm d t xs
                   \<lparr> AssimpSceneAnimation.name := nm', durationInTicks := d', ticksPerSecond := t',
                     nodeAnimations := ys \<rparr>) n
              = getNodeAnimation (new_AssimpSceneAnimation nm d t xs) n)"
proof (intro conjI ballI allI impI)
  fix a assume "a \<in> set xs"
  with assms have "find (\<lambda>b. NodeAnimation.name b = NodeAnimation.name a) (rev xs) = Some a"
    by (intro find_distinct_name) (simp_all add: rev_map[symmetric])
  then show "getNodeAnimation (new_AssimpSceneAnimation nm d t xs) (NodeAnimation.name a) = Some a"
    by (simp add: getNodeAnimation_find)
next
  fix n assume "n \<notin> NodeAnimation.name ` set xs"
  then have "find (\<lambda>a. NodeAnimation.name a = n) (rev xs) = None"
    by (auto simp: find_None_iff)
  then show "getNodeAnimation (new_AssimpSceneAnimation nm d t xs) n = None"
    by (simp add: getNodeAnimation_find)
next
  fix nm' d' t' ys n
  show "getNodeAnimation
                (new_AssimpSceneAnimation nm d t xs
                   \<lparr> AssimpSceneAnimation.name := nm', durationInTicks := d', ticksPerSecond := t',
                     nodeAnimations := ys \<rparr>) n
              = getNodeAnimation (new_AssimpSceneAnimation nm d t xs) n"
    by (simp add: getNodeAnimation_def)
qed

theorem getNodeAnimation_distinct_witness:
  "distinct (map NodeAnimation.name [example_arm_animation, example_leg_animation])
   \<and> getNodeAnimation
       (new_AssimpSceneAnimation ''walk'' 20 10 [example_arm_animation, example_leg_animation])
       ''Arm'' = Some example_arm_animation
   \<and> getNodeAnimation
       (new_AssimpSceneAnimation ''walk'' 20 10 [example_arm_animation, example_leg_animation])
       ''Head'' = None"
proof -
  have d: "distinct (map NodeAnimation.name [example_arm_animation, example_leg_animation])"
    by (simp add: example_arm_animation_def example_leg_animation_def)
  from getNodeAnimation_distinct[OF d, of "''walk''" 20 10] d show ?thesis
    by (simp add: example_arm_animation_def example_leg_animation_def)
qed

text \<open>
  C10. When the sequence given to the constructor holds several records with one name,
  \<open>getNodeAnimation\<close> returns for that name the record that occurs last: the record \<open>a\<close>
  after which no record has the name of \<open>a\<close>.
\<close>

theorem getNodeAnimation_last_wins:
  assumes "xs = ys @ a # zs" and "\<forall>b \<in> set zs. NodeAnimation.name b \<noteq> NodeAnimation.name a"
  shows "getNodeAnimation (new_AssimpSceneAnimation nm d t xs) (NodeAnimation.name a) = Some a"
proof -
  have "find (\<lambda>b. NodeAnimation.name b = NodeAnimation.name a) (rev zs) = None"
    using assms(2) by (auto simp: find_None_iff)
  then show ?thesis
    by (simp add: getNodeAnimation_find assms(1) find_append)
qed

theorem getNodeAnimation_last_wins_witness:
  "NodeAnimation.name example_arm_animation = NodeAnimation.name example_second_arm_animation
   \<and> example_arm_animation \<noteq> example_second_arm_animation
   \<and> getNodeAnimation
       (new_AssimpSceneAnimation ''walk'' 20 10
          [example_arm_animation, example_second_arm_animation, example_leg_animation])
       ''Arm'' = Some example_second_arm_animation"
proof -
  have 1: "[example_arm_animation, example_second_arm_animation, example_leg_animation]
             = [example_arm_animation] @ example_second_arm_animation # [example_leg_animation]"
    by simp
  have 2: "\<forall>b \<in> set [example_leg_animation].
             NodeAnimation.name b \<noteq> NodeAnimation.name example_second_arm_animation"
    by (simp add: example_leg_animation_def example_second_arm_animation_def)
  from getNodeAnimation_last_wins[OF 1 2, of "''walk''" 20 10] show ?thesis
    by (simp add: example_arm_animation_def example_second_arm_animation_def)
qed

section \<open>Lights\<close>

lemma collect_first_error:
  assumes "i < length xs" and "f (xs ! i) = Inl e" and "\<forall>j < i. \<exists>y. f (xs ! j) = Inr y"
  shows "collect f xs = Inl e"
  using assms
proof (induction xs arbitrary: i)
  case Nil
  then show ?case by simp
next
  case (Cons x xs)
  show ?case
  proof (cases i)
    case 0
    with Cons.prems show ?thesis by simp
  next
    case (Suc k)
    from Cons.prems(3) Suc obtain y where y: "f x = Inr y" by fastforce
    have "collect f xs = Inl e"
    proof (rule Cons.IH)
      show "k < length xs" using Cons.prems(1) Suc by simp
      show "f (xs ! k) = Inl e" using Cons.prems(2) Suc by simp
      show "\<forall>j < k. \<exists>y. f (xs ! j) = Inr y"
      proof (intro allI impI)
        fix j assume "j < k"
        then have "Suc j < i" using Suc by simp
        with Cons.prems(3) have "\<exists>y. f ((x # xs) ! Suc j) = Inr y" by blast
        then show "\<exists>y. f (xs ! j) = Inr y" by simp
      qed
    qed
    with y show ?thesis by simp
  qed
qed

lemma loadSceneLight_Inr:
  assumes "loadSceneLight light = Inr s"
  shows "(light_json.type light = 1 \<and> SceneLight.type s = Directional)
       \<or> (light_json.type light = 2 \<and> SceneLight.type s = Point)
       \<or> (light_json.type light = 3 \<and> SceneLight.type s = Spot)"
  using assms by (auto simp: loadSceneLight_def getLightType_def split: sum.splits if_splits)

lemma loadSceneLight_known:
  assumes "light_json.type light = 1 \<or> light_json.type light = 2 \<or> light_json.type light = 3"
  shows "\<exists>s. loadSceneLight light = Inr s"
  using assms by (auto simp: loadSceneLight_def getLightType_def)

lemma loadSceneLight_unknown:
  assumes "light_json.type light \<noteq> 1" "light_json.type light \<noteq> 2" "light_json.type light \<noteq> 3"
  shows "loadSceneLight light = Inl (Error (UnknownLightType (light_json.type light)))"
  using assms by (simp add: loadSceneLight_def getLightType_def)

lemma loadSceneLights_first_unknown:
  assumes ls: "assimp_json.lights json = Some ls" and i: "i < length ls"
    and bad: "light_json.type (ls ! i) \<noteq> 1" "light_json.type (ls ! i) \<noteq> 2"
      "light_json.type (ls ! i) \<noteq> 3"
    and before: "\<forall>j < i. light_json.type (ls ! j) = 1 \<or> light_json.type (ls ! j) = 2
                   \<or> light_json.type (ls ! j) = 3"
  shows "loadSceneLights json = Inl (Error (UnknownLightType (light_json.type (ls ! i))))"
proof -
  have "collect loadSceneLight ls = Inl (Error (UnknownLightType (light_json.type (ls ! i))))"
    using i loadSceneLight_unknown[OF bad] before
    by (intro collect_first_error[where i = i]) (auto intro: loadSceneLight_known)
  then show ?thesis by (simp add: loadSceneLights_def ls)
qed

lemma getAssimpJson_example:
  "getAssimpJson (example_host document) (example_import example_assimp) = Inr document"
  by (simp add: getAssimpJson_def example_host_def example_import_def example_assimp_def
        pushFile_def loadAssimp_def new_AssimpImport_def FileCount_def GetFile_def elem_def)

lemma loadSceneNode_unknown_light_example:
  "loadSceneNode (rootnode example_unknown_light) example_unknown_light = Inr example_root"
  by (simp add: example_unknown_light_def example_document_def example_meshes_def example_root_def
        loadNodeMesh_def elem_def mat4_fromValues_def number_elem_def Float32Array_set_def
        ToNumber_def fround_examples)

lemma loadSceneLights_example:
  "loadSceneLights example_document = Inr example_scene_lights"
  by (simp add: loadSceneLights_def example_document_def example_lights_def example_scene_lights_def
        loadSceneLight_def getLightType_def vec3_fromValues_def elem_def)

text \<open>
  C3. Light type codes 1, 2, 3 map to \<open>Directional\<close>, \<open>Point\<close>, \<open>Spot\<close>, for the function and
  for every light of a document whose lights all load. Any other code throws the error
  \<open>Unknown light type\<close> with that code. The first light of the document with such a
  code ends the walk over the lights with that error; the conversion then returns no
  scene, and throws this very error when the steps that come before the lights (the
  parser and the node tree) have not thrown.
\<close>

theorem getLightType_mapping:
  "getLightType 1 = Inr Directional \<and> getLightType 2 = Inr Point \<and> getLightType 3 = Inr Spot
   \<and> (t \<noteq> 1 \<and> t \<noteq> 2 \<and> t \<noteq> 3 \<longrightarrow> getLightType t = Inl (Error (UnknownLightType t)))
   \<and> (assimp_json.lights json = Some ls \<and> loadSceneLights json = Inr out \<longrightarrow>
        list_all2 (\<lambda>light s. (light_json.type light = 1 \<and> SceneLight.type s = Directional)
                            \<or> (light_json.type light = 2 \<and> SceneLight.type s = Point)
                            \<or> (light_json.type light = 3 \<and> SceneLight.type s = Spot)) ls out)
   \<and> (assimp_json.lights json = Some ls \<and> i < length ls
        \<and> light_json.type (ls ! i) \<noteq> 1 \<and> light_json.type (ls ! i) \<noteq> 2
        \<and> light_json.type (ls ! i) \<noteq> 3
        \<and> (\<forall>j < i. light_json.type (ls ! j) = 1 \<or> light_json.type (ls ! j) = 2
                   \<or> light_json.type (ls ! j) = 3)
        \<longrightarrow>
        loadSceneLights json = Inl (Error (UnknownLightType (light_json.type (ls ! i))))
        \<and> (\<forall>h this. getAssimpJson h this = Inr json \<longrightarrow>
              (\<exists>e. loadScene h this = Inl e)
              \<and> (\<forall>root. loadSceneNode (rootnode json) json = Inr root \<longrightarrow>
                    loadScene h this = Inl (Error (UnknownLightType (light_json.type (ls ! i)))))))"
proof (intro conjI impI)
  assume "assimp_json.lights json = Some ls \<and> loadSceneLights json = Inr out"
  then have "collect loadSceneLight ls = Inr out" by (auto simp: loadSceneLights_def)
  then have "list_all2 (\<lambda>light s. loadSceneLight light = Inr s) ls out" by (rule collect_Inr)
  then show "list_all2 (\<lambda>light s. (light_json.type light = 1 \<and> SceneLight.type s = Directional)
                            \<or> (light_json.type light = 2 \<and> SceneLight.type s = Point)
                            \<or> (light_json.type light = 3 \<and> SceneLight.type s = Spot)) ls out"
    by (rule list_all2_mono) (rule loadSceneLight_Inr)
next
  assume a: "assimp_json.lights json = Some ls \<and> i < length ls
        \<and> light_json.type (ls ! i) \<noteq> 1 \<and> light_json.type (ls ! i) \<noteq> 2
        \<and> light_json.type (ls ! i) \<noteq> 3
        \<and> (\<forall>j < i. light_json.type (ls ! j) = 1 \<or> light_json.type (ls ! j) = 2
                   \<or> light_json.type (ls ! j) = 3)"
  then show l: "loadSceneLights json = Inl (Error (UnknownLightType (light_json.type (ls ! i))))"
    by (intro loadSceneLights_first_unknown) simp_all
  show "\<forall>h this. getAssimpJson h this = Inr json \<longrightarrow>
              (\<exists>e. loadScene h this = Inl e)
              \<and> (\<forall>root. loadSceneNode (rootnode json) json = Inr root \<longrightarrow>
                    loadScene h this = Inl (Error (UnknownLightType (light_json.type (ls ! i)))))"
    using l by (auto simp: loadScene_def Let_def split: sum.splits)
qed (simp_all add: getLightType_def)

theorem getLightType_mapping_witness:
  "getLightType 5 = Inl (Error (UnknownLightType 5))
   \<and> assimp_json.lights example_document = Some example_lights
   \<and> loadSceneLights example_document = Inr example_scene_lights
   \<and> map light_json.type example_lights = [1, 3]
   \<and> map SceneLight.type example_scene_lights = [Directional, Spot]
   \<and> assimp_json.lights example_unknown_light = Some example_unknown_lights
   \<and> map light_json.type example_unknown_lights = [1, 5, 4]
   \<and> loadSceneLights example_unknown_light = Inl (Error (UnknownLightType 5))
   \<and> getAssimpJson (example_host example_unknown_light) (example_import example_assimp)
       = Inr example_unknown_light
   \<and> loadSceneNode (rootnode example_unknown_light) example_unknown_light = Inr example_root
   \<and> loadScene (example_host example_unknown_light) (example_import example_assimp)
       = Inl (Error (UnknownLightType 5))"
proof -
  have good: "assimp_json.lights example_document = Some example_lights"
    by (simp add: example_document_def)
  have bad: "assimp_json.lights example_unknown_light = Some example_unknown_lights"
    by (simp add: example_unknown_light_def)
  have types: "map light_json.type example_unknown_lights = [1, 5, 4]"
    by (simp add: example_unknown_lights_def)
  from getLightType_mapping[of 5 example_document example_lights example_scene_lights 0]
    good loadSceneLights_example
  have 1: "getLightType 5 = Inl (Error (UnknownLightType 5))
         \<and> map light_json.type example_lights = [1, 3]
         \<and> map SceneLight.type example_scene_lights = [Directional, Spot]"
    by (simp add: example_lights_def example_scene_lights_def)
  from getLightType_mapping[of 5 example_unknown_light example_unknown_lights "[]" 1] bad
  have 2: "loadSceneLights example_unknown_light = Inl (Error (UnknownLightType 5))
         \<and> (\<forall>h this. getAssimpJson h this = Inr example_unknown_light \<longrightarrow>
              (\<forall>root. loadSceneNode (rootnode example_unknown_light) example_unknown_light = Inr root \<longrightarrow>
                  loadScene h this = Inl (Error (UnknownLightType 5))))"
    by (simp add: example_unknown_lights_def)
  with getAssimpJson_example[of example_unknown_light] loadSceneNode_unknown_light_example
  have 3: "loadScene (example_host example_unknown_light) (example_import example_assimp)
             = Inl (Error (UnknownLightType 5))"
    by blast
  from 1 2 3 good bad types loadSceneLights_example
    getAssimpJson_example[of example_unknown_light] loadSceneNode_unknown_light_example
  show ?thesis by simp
qed

section \<open>The conversion\<close>

lemma map_entries: "map (\<lambda>(path, data). (path, data)) xs = xs"
  by (induction xs) auto

lemma getMeshVertices_loop_error:
  "getMeshVertices_loop mesh i acc = Inl e \<Longrightarrow> e = TypeError"
proof (induction mesh i acc rule: getMeshVertices_loop.induct)
  case (1 mesh i acc)
  from "1.prems" "1.IH" show ?case
    by (subst (asm) getMeshVertices_loop.simps) (auto simp: Let_def split: if_splits option.splits)
qed

lemma loadSceneMeshes_error:
  assumes "loadSceneMeshes json = Inl e"
  shows "e = TypeError"
proof -
  from assms obtain ms where "collect loadSceneMesh ms = Inl e"
    by (auto simp: loadSceneMeshes_def split: option.splits)
  then obtain mesh where "loadSceneMesh mesh = Inl e"
    by (blast dest: collect_Inl)
  then have "getMeshVertices mesh = Inl e"
    by (auto simp: loadSceneMesh_def Let_def split: sum.splits)
  then show ?thesis
    unfolding getMeshVertices_def by (rule getMeshVertices_loop_error)
qed

lemma loadSceneLights_error:
  assumes "loadSceneLights json = Inl e"
  shows "\<exists>t. e = Error (UnknownLightType t)"
proof -
  from assms obtain ls where "collect loadSceneLight ls = Inl e"
    by (auto simp: loadSceneLights_def split: option.splits)
  then obtain light where "loadSceneLight light = Inl e"
    by (blast dest: collect_Inl)
  then show ?thesis
    by (auto simp: loadSceneLight_def getLightType_def split: sum.splits if_splits)
qed

lemma loadNodeMesh_error: "loadNodeMesh json mesh = Inl e \<Longrightarrow> e = TypeError"
  by (auto simp: loadNodeMesh_def split: option.splits)

lemma loadSceneNode_error:
  shows "loadSceneNode n json = Inl e \<Longrightarrow> e = TypeError"
    and "loadSceneNode_children l json = Inl e \<Longrightarrow> e = TypeError"
proof (induction n json and l json rule: loadSceneNode_loadSceneNode_children.induct)
  case (1 name' t ms cs json)
  show ?case
  proof (cases "case ms of None \<Rightarrow> Inr [] | Some l \<Rightarrow> collect (loadNodeMesh json) l")
    case (Inl e')
    with "1.prems" have "e' = e" by simp
    with Inl show ?thesis
      by (auto split: option.splits dest!: collect_Inl dest: loadNodeMesh_error)
  next
    case (Inr meshes')
    with "1.prems" obtain l where "cs = Some l" "loadSceneNode_children l json = Inl e"
      by (auto split: option.splits sum.splits)
    with "1.IH"[OF Inr] show ?thesis by simp
  qed
next
  case (2 json)
  then show ?case by simp
next
  case (3 child rest json)
  then show ?case by (auto split: sum.splits)
qed

text \<open>
  C4. With the parser loaded, \<open>getAssimpJson\<close>, and with it the conversion, throws the
  error \<open>Assimp failed to convert files\<close> exactly when the parser's result is not a success
  or has no output file, and the error carries the result's error code. Otherwise the
  content of the first output file is decoded and parsed as JSON. Whatever
  \<open>getAssimpJson\<close> throws, the conversion throws: no scene is returned.
\<close>

theorem getAssimpJson_conversion_error:
  assumes "assimpJs this = Some assimp"
  shows "let result = ConvertFileList assimp (files this) ''assjson'';
             failed = (\<not> IsSuccess result \<or> FileCount result = 0)
         in ((\<exists>c. getAssimpJson h this = Inl (Error (AssimpFailedToConvert c))) \<longleftrightarrow> failed)
          \<and> ((\<exists>c. loadScene h this = Inl (Error (AssimpFailedToConvert c))) \<longleftrightarrow> failed)
          \<and> (failed \<longrightarrow>
                getAssimpJson h this = Inl (Error (AssimpFailedToConvert (GetErrorCode result)))
                \<and> loadScene h this = Inl (Error (AssimpFailedToConvert (GetErrorCode result))))
          \<and> (\<not> failed \<longrightarrow>
                getAssimpJson h this =
                  (case JSON_parse h (TextDecoder_decode h (GetContent (GetFiles result ! 0))) of
                     None \<Rightarrow> Inl SyntaxError
                   | Some json \<Rightarrow> Inr json))
          \<and> (\<forall>e. getAssimpJson h this = Inl e \<longrightarrow> loadScene h this = Inl e)"
proof -
  define result where "result = ConvertFileList assimp (files this) ''assjson''"
  define failed where "failed \<longleftrightarrow> \<not> IsSuccess result \<or> FileCount result = 0"
  have g1: "getAssimpJson h this = Inl (Error (AssimpFailedToConvert (GetErrorCode result)))"
    if failed
    using that assms
    by (auto simp: getAssimpJson_def map_entries Let_def result_def failed_def)
  have g2: "getAssimpJson h this =
                  (case JSON_parse h (TextDecoder_decode h (GetContent (GetFiles result ! 0))) of
                     None \<Rightarrow> Inl SyntaxError
                   | Some json \<Rightarrow> Inr json)" if "\<not> failed"
    using that assms
    by (auto simp: getAssimpJson_def map_entries Let_def result_def failed_def FileCount_def
          GetFile_def elem_def)
  have g3: "failed" if "getAssimpJson h this = Inl (Error (AssimpFailedToConvert c))" for c
  proof (rule ccontr)
    assume "\<not> failed"
    from g2[OF this] that show False by (simp split: option.splits)
  qed
  have s1: "loadScene h this = Inl e" if "getAssimpJson h this = Inl e" for e
    using that by (simp add: loadScene_def)
  have s2: "failed" if "loadScene h this = Inl (Error (AssimpFailedToConvert c))" for c
  proof (cases "getAssimpJson h this")
    case (Inl e)
    with s1[OF Inl] that have "getAssimpJson h this = Inl (Error (AssimpFailedToConvert c))"
      by simp
    then show ?thesis by (rule g3)
  next
    case (Inr json)
    with that show ?thesis
      by (auto simp: loadScene_def Let_def split: sum.splits
               dest: loadSceneNode_error(1) loadSceneLights_error loadSceneMeshes_error)
  qed
  show ?thesis
    unfolding Let_def result_def[symmetric] failed_def[symmetric]
    using g1 g2 g3 s1 s2 by blast
qed

theorem getAssimpJson_conversion_error_witness:
  "assimpJs (example_import example_failing_assimp) = Some example_failing_assimp
   \<and> IsSuccess (ConvertFileList example_failing_assimp
                  (files (example_import example_failing_assimp)) ''assjson'') = False
   \<and> getAssimpJson (example_host example_document) (example_import example_failing_assimp)
       = Inl (Error (AssimpFailedToConvert ''import_error''))
   \<and> loadScene (example_host example_document) (example_import example_failing_assimp)
       = Inl (Error (AssimpFailedToConvert ''import_error''))
   \<and> assimpJs (example_import example_assimp) = Some example_assimp
   \<and> IsSuccess (ConvertFileList example_assimp (files (example_import example_assimp)) ''assjson'')
       = True
   \<and> FileCount (ConvertFileList example_assimp (files (example_import example_assimp)) ''assjson'')
       = 1
   \<and> getAssimpJson (example_host example_document) (example_import example_assimp)
       = Inr example_document"
proof -
  have f: "assimpJs (example_import example_failing_assimp) = Some example_failing_assimp"
    by (simp add: example_import_def pushFile_def loadAssimp_def)
  have g: "assimpJs (example_import example_assimp) = Some example_assimp"
    by (simp add: example_import_def pushFile_def loadAssimp_def)
  from getAssimpJson_conversion_error[OF f, of "example_host example_document"]
    getAssimpJson_conversion_error[OF g, of "example_host example_document"] f g
  show ?thesis
    by (simp add: Let_def example_failing_assimp_def example_assimp_def example_host_def
          FileCount_def)
qed

section \<open>Cameras\<close>






end
